theory Spec2Isabelle
  imports Complex_Main "HOL-Library.Word" "HOL-Library.Multiset"
begin

section \<open>Machine types and runtime failures\<close>

text \<open>
  The benchmark is built for 64-bit targets: Go's \<open>int\<close>, \<open>uint\<close>, \<open>int64\<close> and
  \<open>uint64\<close> are all 64-bit words. Unsigned values are read with \<open>unat\<close>/\<open>uint\<close>,
  signed ones with \<open>sint\<close>; a conversion between the two keeps the bits.
\<close>

type_synonym u64 = "64 word"

text \<open>What ends a goroutine abnormally: a run-time panic or \<open>log.Fatal\<close>.\<close>

datatype failure =
    DivideByZero
  | IndexOutOfRange
  | NilDereference
  | Panic string
  | Fatal string

section \<open>Partition indexer (cmd/ftsb_load_redisearch/main.go)\<close>

record RedisIndexer =
  partitions :: u64

text \<open>
  \<open>func (i *RedisIndexer) GetIndex(itemsRead uint64, p *load.Point) int {
       return int(uint(itemsRead) % i.partitions) }\<close>
  The remainder is unsigned; a zero divisor panics; the final \<open>int(...)\<close> reinterprets
  the 64 bits as a signed value. The point is an argument that the body never reads.
\<close>

definition GetIndex :: "RedisIndexer \<Rightarrow> u64 \<Rightarrow> 'point \<Rightarrow> failure + int" where
  "GetIndex i itemsRead p =
     (if partitions i = 0 then Inl DivideByZero
      else Inr (sint (itemsRead mod partitions i)))"

section \<open>Floating point results (float64)\<close>

text \<open>
  The reporting code divides counts as \<open>float64\<close>. What matters to the result document
  is which special value a division yields, so a double is either one of the IEEE special
  values or a finite number; a finite quotient stands for the double nearest to it, and
  the sign of zero is not tracked.
\<close>

datatype float64 = NaN | PosInf | NegInf | Fin rat

text \<open>\<open>float64(n)\<close> for an integer count.\<close>

definition float64_of_int :: "int \<Rightarrow> float64" where
  "float64_of_int n = Fin (of_int n)"

text \<open>IEEE 754 division: \<open>0/0\<close> and \<open>Inf/Inf\<close> are NaN, \<open>x/0\<close> is an infinity.\<close>

fun fdiv :: "float64 \<Rightarrow> float64 \<Rightarrow> float64" where
  "fdiv NaN _ = NaN"
| "fdiv _ NaN = NaN"
| "fdiv (Fin a) (Fin b) =
     (if b = 0 then (if a = 0 then NaN else if 0 < a then PosInf else NegInf)
      else Fin (a / b))"
| "fdiv (Fin a) PosInf = Fin 0"
| "fdiv (Fin a) NegInf = Fin 0"
| "fdiv PosInf (Fin b) = (if 0 \<le> b then PosInf else NegInf)"
| "fdiv NegInf (Fin b) = (if 0 \<le> b then NegInf else PosInf)"
| "fdiv PosInf _ = NaN"
| "fdiv NegInf _ = NaN"

definition IsNaN :: "float64 \<Rightarrow> bool" where
  "IsNaN x = (case x of NaN \<Rightarrow> True | _ \<Rightarrow> False)"

text \<open>
  \<open>// protect against NaN on json
  func wrapNaN(input float64) (output float64) {
      output = input
      if math.IsNaN(output) { output = -1.0 }
      return }\<close>
\<close>

definition wrapNaN :: "float64 \<Rightarrow> float64" where
  "wrapNaN input = (let output = input in if IsNaN output then Fin (- 1) else output)"

section \<open>Histograms\<close>

text \<open>
  Modelled from the spec: the histogram type comes from the library
  \<open>github.com/filipecosta90/hdrhistogram\<close>, which is not part of the sources. The spec
  gives its contract: a bounded range fixed at construction
  (\<open>hdrhistogram.New(1, 1000000, 3)\<close>), \<open>RecordValue\<close> fails and records nothing when the
  value is outside the range, \<open>TotalCount\<close> counts the recorded values and \<open>Reset\<close>
  forgets them. The recorded values are kept as a list, newest first.
\<close>

record Histogram =
  lowestTrackableValue :: int
  highestTrackableValue :: int
  significantFigures :: nat
  recorded :: "int list"

definition New :: "int \<Rightarrow> int \<Rightarrow> nat \<Rightarrow> Histogram" where
  "New minValue maxValue sigfigs =
     \<lparr>lowestTrackableValue = minValue, highestTrackableValue = maxValue,
      significantFigures = sigfigs, recorded = []\<rparr>"

datatype hist_error = ValueOutOfRange int

definition RecordValue :: "Histogram \<Rightarrow> int \<Rightarrow> hist_error + Histogram" where
  "RecordValue h v =
     (if lowestTrackableValue h \<le> v \<and> v \<le> highestTrackableValue h
      then Inr (h\<lparr>recorded := v # recorded h\<rparr>)
      else Inl (ValueOutOfRange v))"

definition TotalCount :: "Histogram \<Rightarrow> int" where
  "TotalCount h = int (length (recorded h))"

definition Reset :: "Histogram \<Rightarrow> Histogram" where
  "Reset h = h\<lparr>recorded := []\<rparr>"

text \<open>
  The worker writes \<open>_ = h.RecordValue(v)\<close>: the histogram is updated in place when the
  value is accepted, and a returned error is discarded.
\<close>

definition RecordValue_discard :: "Histogram \<Rightarrow> int \<Rightarrow> Histogram" where
  "RecordValue_discard h v = (case RecordValue h v of Inr h' \<Rightarrow> h' | Inl _ \<Rightarrow> h)"

section \<open>Command statistics\<close>

text \<open>
  Modelled from the spec: \<open>CmdStat\<close> and \<open>Stat\<close> belong to the package
  \<open>benchmark_runner\<close>, of which only callers are in the sources. A \<open>CmdStat\<close> holds a
  category label, an identifier, a latency in microseconds, the two flags and the byte
  counts, in the argument order of \<open>AddEntry\<close>; a \<open>Stat\<close> aggregates zero or more of them,
  \<open>NewStat\<close> being the empty one and \<open>Merge\<close> appending.
\<close>

record CmdStat =
  Label :: string
  CmdQueryId :: string
  Latency :: u64
  IsUpdate :: bool
  IsDelete :: bool
  Tx :: u64
  Rx :: u64

record Stat =
  CmdStats :: "CmdStat list"

definition NewStat :: Stat where
  "NewStat = \<lparr>CmdStats = []\<rparr>"

definition AddEntry :: "Stat \<Rightarrow> string \<Rightarrow> string \<Rightarrow> u64 \<Rightarrow> bool \<Rightarrow> bool \<Rightarrow> u64 \<Rightarrow> u64 \<Rightarrow> Stat" where
  "AddEntry s lbl qid took upd del txb rxb =
     s\<lparr>CmdStats := CmdStats s @
        [\<lparr>Label = lbl, CmdQueryId = qid, Latency = took, IsUpdate = upd, IsDelete = del,
          Tx = txb, Rx = rxb\<rparr>]\<rparr>"

definition Merge :: "Stat \<Rightarrow> Stat \<Rightarrow> Stat" where
  "Merge s other = s\<lparr>CmdStats := CmdStats s @ CmdStats other\<rparr>"

section \<open>The benchmark runner (package load)\<close>

text \<open>
  Modelled from the spec: the type \<open>DataPoint\<close> is declared outside the sources; the
  runner builds it positionally as \<open>DataPoint{now.Unix(), mp}\<close>, a timestamp in seconds
  and a map from quantile labels and \<open>"rate"\<close> to values.
\<close>

record DataPoint =
  Timestamp :: int
  MultiValue :: "string \<rightharpoonup> float64"

text \<open>
  The fields of \<open>BenchmarkRunner\<close> that the workers and the reporter share: a cumulative
  and an instantaneous histogram and a time series per category and for the total, and
  the two byte counters. The flag fields are passed as arguments where a function reads
  them.
\<close>

record BenchmarkRunner =
  setupWriteHistogram :: Histogram
  inst_setupWriteHistogram :: Histogram
  setupWriteTs :: "DataPoint list"
  writeHistogram :: Histogram
  inst_writeHistogram :: Histogram
  writeTs :: "DataPoint list"
  updateHistogram :: Histogram
  inst_updateHistogram :: Histogram
  updateTs :: "DataPoint list"
  readHistogram :: Histogram
  inst_readHistogram :: Histogram
  readTs :: "DataPoint list"
  readCursorHistogram :: Histogram
  inst_readCursorHistogram :: Histogram
  readCursorTs :: "DataPoint list"
  deleteHistogram :: Histogram
  inst_deleteHistogram :: Histogram
  deleteTs :: "DataPoint list"
  totalHistogram :: Histogram
  inst_totalHistogram :: Histogram
  totalTs :: "DataPoint list"
  txTotalBytes :: u64
  rxTotalBytes :: u64

text \<open>The singleton \<open>var loader = &BenchmarkRunner{...}\<close>.\<close>

definition loader :: BenchmarkRunner where
  "loader =
     \<lparr>setupWriteHistogram = New 1 1000000 3,
      inst_setupWriteHistogram = New 1 1000000 3,
      setupWriteTs = [],
      writeHistogram = New 1 1000000 3,
      inst_writeHistogram = New 1 1000000 3,
      writeTs = [],
      updateHistogram = New 1 1000000 3,
      inst_updateHistogram = New 1 1000000 3,
      updateTs = [],
      readHistogram = New 1 1000000 3,
      inst_readHistogram = New 1 1000000 3,
      readTs = [],
      readCursorHistogram = New 1 1000000 3,
      inst_readCursorHistogram = New 1 1000000 3,
      readCursorTs = [],
      deleteHistogram = New 1 1000000 3,
      inst_deleteHistogram = New 1 1000000 3,
      deleteTs = [],
      totalHistogram = New 1 1000000 3,
      inst_totalHistogram = New 1 1000000 3,
      totalTs = [],
      txTotalBytes = 0,
      rxTotalBytes = 0\<rparr>"

subsection \<open>The worker's aggregation step\<close>

text \<open>
  The body of the inner loop of \<open>work\<close>, for one \<open>cmdStat\<close>: the latency goes to both
  total histograms as \<open>int64(cmdStat.Latency())\<close>, the byte counts are added to the
  shared counters (64-bit, wrapping), and then the label selects the pair of histograms
  of its category. The \<open>switch\<close> has no default branch.
\<close>

definition work_cmdStat :: "BenchmarkRunner \<Rightarrow> CmdStat \<Rightarrow> BenchmarkRunner" where
  "work_cmdStat l cmdStat =
     (let v = sint (Latency cmdStat);
          l = l\<lparr>totalHistogram := RecordValue_discard (totalHistogram l) v\<rparr>;
          l = l\<lparr>inst_totalHistogram := RecordValue_discard (inst_totalHistogram l) v\<rparr>;
          l = l\<lparr>txTotalBytes := txTotalBytes l + Tx cmdStat\<rparr>;
          l = l\<lparr>rxTotalBytes := rxTotalBytes l + Rx cmdStat\<rparr>;
          labelStr = Label cmdStat
      in if labelStr = ''SETUP_WRITE'' then
           l\<lparr>setupWriteHistogram := RecordValue_discard (setupWriteHistogram l) v,
             inst_setupWriteHistogram := RecordValue_discard (inst_setupWriteHistogram l) v\<rparr>
         else if labelStr = ''WRITE'' then
           l\<lparr>writeHistogram := RecordValue_discard (writeHistogram l) v,
             inst_writeHistogram := RecordValue_discard (inst_writeHistogram l) v\<rparr>
         else if labelStr = ''UPDATE'' then
           l\<lparr>updateHistogram := RecordValue_discard (updateHistogram l) v,
             inst_updateHistogram := RecordValue_discard (inst_updateHistogram l) v\<rparr>
         else if labelStr = ''READ'' then
           l\<lparr>readHistogram := RecordValue_discard (readHistogram l) v,
             inst_readHistogram := RecordValue_discard (inst_readHistogram l) v\<rparr>
         else if labelStr = ''CURSOR_READ'' then
           l\<lparr>readCursorHistogram := RecordValue_discard (readCursorHistogram l) v,
             inst_readCursorHistogram := RecordValue_discard (inst_readCursorHistogram l) v\<rparr>
         else if labelStr = ''DELETE'' then
           l\<lparr>deleteHistogram := RecordValue_discard (deleteHistogram l) v,
             inst_deleteHistogram := RecordValue_discard (inst_deleteHistogram l) v\<rparr>
         else l)"

text \<open>\<open>for pos := 0; pos < len(cmdStats); pos++ { ... }\<close> over the stats of one batch.\<close>

definition work_batch :: "BenchmarkRunner \<Rightarrow> Stat \<Rightarrow> BenchmarkRunner" where
  "work_batch l stats = foldl work_cmdStat l (CmdStats stats)"

subsection \<open>Time\<close>

text \<open>
  A \<open>time.Time\<close> is the number of nanoseconds since the Unix epoch, a \<open>time.Duration\<close>
  a signed 64-bit number of nanoseconds. \<open>Sub\<close> saturates at the ends of that range,
  \<open>Microseconds\<close> divides by 1000 truncating towards zero, \<open>Unix\<close> gives whole seconds.
\<close>

type_synonym Time = int
type_synonym Duration = int

definition Sub :: "Time \<Rightarrow> Time \<Rightarrow> Duration" where
  "Sub t u = max (- (2 ^ 63)) (min (2 ^ 63 - 1) (t - u))"

definition Microseconds :: "Duration \<Rightarrow> int" where
  "Microseconds d = sgn d * (\<bar>d\<bar> div 1000)"

definition Seconds :: "Duration \<Rightarrow> float64" where
  "Seconds d = Fin (of_int d / 1000000000)"

definition Unix :: "Time \<Rightarrow> int" where
  "Unix t = t div 1000000000"

subsection \<open>Ratios of the result document\<close>

text \<open>
  \<open>GetMeasuredRatiosMap\<close>: the four ratios are quotients of \<open>float64\<close> conversions of
  the counts by the total count, stored under their keys as computed.
\<close>

definition GetMeasuredRatiosMap :: "BenchmarkRunner \<Rightarrow> (string \<rightharpoonup> float64)" where
  "GetMeasuredRatiosMap b =
     (let totalOps = TotalCount (totalHistogram b);
          writeRatio = fdiv (float64_of_int (TotalCount (writeHistogram b)
                                             + TotalCount (setupWriteHistogram b)))
                            (float64_of_int totalOps);
          readRatio = fdiv (float64_of_int (TotalCount (readHistogram b)
                                            + TotalCount (readCursorHistogram b)))
                           (float64_of_int totalOps);
          updateRatio = fdiv (float64_of_int (TotalCount (updateHistogram b)))
                             (float64_of_int totalOps);
          deleteRatio = fdiv (float64_of_int (TotalCount (deleteHistogram b)))
                             (float64_of_int totalOps)
      in [''MeasuredWriteRatio'' \<mapsto> writeRatio,
          ''MeasuredReadRatio'' \<mapsto> readRatio,
          ''MeasuredUpdateRatio'' \<mapsto> updateRatio,
          ''MeasuredDeleteRatio'' \<mapsto> deleteRatio])"

subsection \<open>Time series of the result document\<close>

text \<open>
  Modelled from the spec: \<open>ByTimestamp\<close> is declared outside the sources; it orders data
  points by timestamp. \<open>sort.Sort\<close> leaves the slice a permutation of itself that is
  ordered by that relation; it promises nothing about the order of equal elements, for
  which the model takes the insertion order.
\<close>

definition sort_ByTimestamp :: "DataPoint list \<Rightarrow> DataPoint list" where
  "sort_ByTimestamp ts = sort_key Timestamp ts"

text \<open>
  \<open>GetTimeSeriesMap\<close> sorts the six per-category series in place and puts them in the
  map; the result is the map together with the runner whose series are now sorted.
\<close>

definition GetTimeSeriesMap :: "BenchmarkRunner \<Rightarrow> (string \<rightharpoonup> DataPoint list) \<times> BenchmarkRunner" where
  "GetTimeSeriesMap b =
     (let b = b\<lparr>setupWriteTs := sort_ByTimestamp (setupWriteTs b)\<rparr>;
          b = b\<lparr>writeTs := sort_ByTimestamp (writeTs b)\<rparr>;
          b = b\<lparr>readTs := sort_ByTimestamp (readTs b)\<rparr>;
          b = b\<lparr>readCursorTs := sort_ByTimestamp (readCursorTs b)\<rparr>;
          b = b\<lparr>updateTs := sort_ByTimestamp (updateTs b)\<rparr>;
          b = b\<lparr>deleteTs := sort_ByTimestamp (deleteTs b)\<rparr>
      in ([''setupWriteTs'' \<mapsto> setupWriteTs b,
           ''writeTs'' \<mapsto> writeTs b,
           ''readTs'' \<mapsto> readTs b,
           ''readCursorTs'' \<mapsto> readCursorTs b,
           ''updateTs'' \<mapsto> updateTs b,
           ''deleteTs'' \<mapsto> deleteTs b], b))"

subsection \<open>The periodic reporter\<close>

text \<open>
  \<open>generateQuantileMap\<close> and \<open>addRateMetricsDatapoints\<close>. The quantile query of the
  histogram library, \<open>ValueAtQuantile\<close>, is the parameter \<open>vaq\<close>; \<open>10e2\<close> is 1000.
\<close>

definition generateQuantileMap ::
  "(Histogram \<Rightarrow> rat \<Rightarrow> int) \<Rightarrow> Histogram \<Rightarrow> int \<times> (string \<rightharpoonup> float64)" where
  "generateQuantileMap vaq hist =
     (let ops = TotalCount hist;
          q50 = (if 0 < ops then fdiv (float64_of_int (vaq hist 50)) (Fin 1000) else Fin 0);
          q95 = (if 0 < ops then fdiv (float64_of_int (vaq hist 95)) (Fin 1000) else Fin 0);
          q99 = (if 0 < ops then fdiv (float64_of_int (vaq hist 99)) (Fin 1000) else Fin 0)
      in (ops, [''q50'' \<mapsto> q50, ''q95'' \<mapsto> q95, ''q99'' \<mapsto> q99]))"

definition addRateMetricsDatapoints ::
  "(Histogram \<Rightarrow> rat \<Rightarrow> int) \<Rightarrow> DataPoint list \<Rightarrow> Time \<Rightarrow> Duration \<Rightarrow> Histogram \<Rightarrow> DataPoint list" where
  "addRateMetricsDatapoints vaq datapoints now timeframe hist =
     (let (ops, mp) = generateQuantileMap vaq hist;
          rate = fdiv (float64_of_int ops) (Seconds timeframe);
          mp = mp(''rate'' \<mapsto> rate);
          datapoint = \<lparr>Timestamp = Unix now, MultiValue = mp\<rparr>
      in datapoints @ [datapoint])"

definition calculateRateMetrics :: "int \<Rightarrow> int \<Rightarrow> Duration \<Rightarrow> float64" where
  "calculateRateMetrics current prev took = fdiv (float64_of_int (current - prev)) (Seconds took)"

text \<open>The local variables that \<open>report\<close> carries from one tick to the next.\<close>

record report_locals =
  prevTime :: Time
  prevWriteCount :: int
  prevSetupWriteCount :: int
  prevUpdateCount :: int
  prevReadCursorCount :: int
  prevReadCount :: int
  prevDeleteCount :: int
  prevTotalOps :: int
  prevTxTotalBytes :: u64
  prevRxTotalBytes :: u64

definition report_init :: "Time \<Rightarrow> report_locals" where
  "report_init start =
     \<lparr>prevTime = start, prevWriteCount = 0, prevSetupWriteCount = 0, prevUpdateCount = 0,
      prevReadCursorCount = 0, prevReadCount = 0, prevDeleteCount = 0, prevTotalOps = 0,
      prevTxTotalBytes = 0, prevRxTotalBytes = 0\<rparr>"

text \<open>
  One iteration of \<open>for now := range time.NewTicker(period).C\<close>. The line written to
  the tab writer only reads the counters and is left out; the data points are appended,
  the previous counts are updated, and the instantaneous histograms are reset by the six
  \<open>Reset\<close> calls that end the loop body.
\<close>

definition report_tick ::
  "(Histogram \<Rightarrow> rat \<Rightarrow> int) \<Rightarrow> Time \<Rightarrow> report_locals \<times> BenchmarkRunner
     \<Rightarrow> report_locals \<times> BenchmarkRunner" where
  "report_tick vaq now st =
     (let (p, l) = st;
          took = Sub now (prevTime p);
          writeCount = TotalCount (writeHistogram l);
          setupWriteCount = TotalCount (setupWriteHistogram l);
          totalWriteCount = writeCount + setupWriteCount;
          readCount = TotalCount (readHistogram l);
          readCursorCount = TotalCount (readCursorHistogram l);
          totalReadCount = readCount + readCursorCount;
          updateCount = TotalCount (updateHistogram l);
          deleteCount = TotalCount (deleteHistogram l);
          totalOps = totalWriteCount + totalReadCount + updateCount + deleteCount;
          txTotal = txTotalBytes l;
          rxTotal = rxTotalBytes l;
          l = l\<lparr>setupWriteTs :=
                 addRateMetricsDatapoints vaq (setupWriteTs l) now took (inst_setupWriteHistogram l)\<rparr>;
          l = l\<lparr>writeTs :=
                 addRateMetricsDatapoints vaq (writeTs l) now took (inst_writeHistogram l)\<rparr>;
          l = l\<lparr>readTs :=
                 addRateMetricsDatapoints vaq (readTs l) now took (inst_readHistogram l)\<rparr>;
          l = l\<lparr>readCursorTs :=
                 addRateMetricsDatapoints vaq (readCursorTs l) now took (inst_readCursorHistogram l)\<rparr>;
          l = l\<lparr>updateTs :=
                 addRateMetricsDatapoints vaq (updateTs l) now took (inst_updateHistogram l)\<rparr>;
          l = l\<lparr>deleteTs :=
                 addRateMetricsDatapoints vaq (deleteTs l) now took (inst_deleteHistogram l)\<rparr>;
          p = \<lparr>prevTime = now, prevWriteCount = writeCount,
               prevSetupWriteCount = setupWriteCount, prevUpdateCount = updateCount,
               prevReadCursorCount = readCursorCount, prevReadCount = readCount,
               prevDeleteCount = deleteCount, prevTotalOps = totalOps,
               prevTxTotalBytes = txTotal, prevRxTotalBytes = rxTotal\<rparr>;
          l = l\<lparr>inst_setupWriteHistogram := Reset (inst_setupWriteHistogram l)\<rparr>;
          l = l\<lparr>inst_writeHistogram := Reset (inst_writeHistogram l)\<rparr>;
          l = l\<lparr>inst_readHistogram := Reset (inst_readHistogram l)\<rparr>;
          l = l\<lparr>inst_readCursorHistogram := Reset (inst_readCursorHistogram l)\<rparr>;
          l = l\<lparr>inst_updateHistogram := Reset (inst_updateHistogram l)\<rparr>;
          l = l\<lparr>inst_deleteHistogram := Reset (inst_deleteHistogram l)\<rparr>
      in (p, l))"

text \<open>
  The workers and the reporter act on the shared runner one step at a time: a worker
  aggregates a statistic, or the ticker fires at some time.
\<close>

datatype run_event = Aggregate CmdStat | Tick Time

definition run_event :: "(Histogram \<Rightarrow> rat \<Rightarrow> int) \<Rightarrow> report_locals \<times> BenchmarkRunner \<Rightarrow> run_event
     \<Rightarrow> report_locals \<times> BenchmarkRunner" where
  "run_event vaq st e =
     (case e of
        Aggregate c \<Rightarrow> (fst st, work_cmdStat (snd st) c)
      | Tick now \<Rightarrow> report_tick vaq now st)"

definition run_events :: "(Histogram \<Rightarrow> rat \<Rightarrow> int) \<Rightarrow> report_locals \<times> BenchmarkRunner
     \<Rightarrow> run_event list \<Rightarrow> report_locals \<times> BenchmarkRunner" where
  "run_events vaq st es = foldl (run_event vaq) st es"

text \<open>The seven cumulative and the seven instantaneous histograms of a runner.\<close>

definition cumulative :: "BenchmarkRunner \<Rightarrow> Histogram list" where
  "cumulative l =
     [setupWriteHistogram l, writeHistogram l, updateHistogram l, readHistogram l,
      readCursorHistogram l, deleteHistogram l, totalHistogram l]"

definition instantaneous :: "BenchmarkRunner \<Rightarrow> Histogram list" where
  "instantaneous l =
     [inst_setupWriteHistogram l, inst_writeHistogram l, inst_updateHistogram l,
      inst_readHistogram l, inst_readCursorHistogram l, inst_deleteHistogram l,
      inst_totalHistogram l]"

text \<open>A quantile query for examples: the largest recorded value.\<close>

definition example_vaq :: "Histogram \<Rightarrow> rat \<Rightarrow> int" where
  "example_vaq h q = fold max (recorded h) 0"

section \<open>The command processor (cmd/ftsb_redisearch/cmd_processor.go)\<close>

subsection \<open>Options, environment and processor state\<close>

text \<open>
  The package-level options that the processor reads are declared outside the sources
  (\<open>pipeline\<close>, \<open>continueOnErr\<close>, \<open>debug\<close>, \<open>clusterMode\<close>); they are compared with
  \<open>len(cmds)\<close> and \<open>0\<close>, so \<open>pipeline\<close> and \<open>debug\<close> are integers.
\<close>

record options =
  pipeline :: int
  continueOnErr :: bool
  debug :: int
  clusterMode :: bool

text \<open>A command built by \<open>radix.FlatCmd(nil, cmd, docfields[0], docfields[1:])\<close>.\<close>

record CmdAction =
  cmdName :: string
  cmdKey :: string
  cmdArgs :: "string list"

text \<open>
  What the processor gets from outside: the \<open>n\<close>-th reading of \<open>time.Now()\<close>, the
  error (or \<open>nil\<close>) with which the \<open>n\<close>-th pipelined round trip returns, and the CSV
  reader of \<open>encoding/csv\<close> applied to one row.
\<close>

record env =
  now_at :: "nat \<Rightarrow> Time"
  do_reply :: "nat \<Rightarrow> CmdAction list \<Rightarrow> string option"
  csv_read :: "string \<Rightarrow> string + string list"

datatype log_entry = ReceivedError "CmdAction list" string

text \<open>
  What the processor does to the outside: the clock readings taken so far, the pipelined
  round trips issued to the target, in order, and the lines written to the log.
\<close>

record world =
  clockReads :: nat
  roundTrips :: "CmdAction list list"
  logged :: "log_entry list"

definition Now :: "env \<Rightarrow> world \<Rightarrow> Time \<times> world" where
  "Now e w = (now_at e (clockReads w), w\<lparr>clockReads := Suc (clockReads w)\<rparr>)"

text \<open>\<open>p.vanillaClient.Do(radix.Pipeline(cmds...))\<close> on a client that is not nil.\<close>

definition Do_Pipeline :: "env \<Rightarrow> CmdAction list \<Rightarrow> world \<Rightarrow> string option \<times> world" where
  "Do_Pipeline e cmds w =
     (do_reply e (length (roundTrips w)) cmds, w\<lparr>roundTrips := roundTrips w @ [cmds]\<rparr>)"

text \<open>
  The processor: the statistics sent on \<open>cmdChan\<close> and not yet collected, and the two
  clients, of which \<open>Init\<close> sets the pool unless in cluster mode. The channel is created
  by \<open>ProcessBatch\<close> with room for one more statistic than the batch has rows, and at
  most one statistic is sent per row, so a send never waits.
\<close>

record processor =
  cmdChan :: "Stat list"
  vanillaClient :: "string option"
  vanillaCluster :: "string option"

text \<open>The reply value handed to \<open>getRxLen\<close>, an \<open>interface{}\<close>.\<close>

datatype reply = NoReply | Strings "string list" | String string | Other

definition getRxLen :: "reply \<Rightarrow> u64" where
  "getRxLen v =
     (case v of
        Strings x \<Rightarrow> foldl (\<lambda>res i. res + of_nat (length i)) 0 x
      | String x \<Rightarrow> 0 + of_nat (length x)
      | _ \<Rightarrow> 0)"

subsection \<open>Flushing the pipeline\<close>

text \<open>
  The loop \<open>for _, t := range times\<close> of \<open>sendIfRequired\<close> (the slice is written
  \<open>times'\<close> below): one statistic per enqueue time, with
  \<open>took = uint64(endT.Sub(t).Microseconds())\<close>, the label, identifier and
  byte count of the command that triggered the flush, and the running received-byte
  count.
\<close>

fun emit_stats :: "Time \<Rightarrow> string \<Rightarrow> string \<Rightarrow> u64 \<Rightarrow> reply \<Rightarrow> Time list \<Rightarrow> u64 \<Rightarrow> Stat list" where
  "emit_stats endT cmdType cmdQueryId txBytesCount rcv [] rxBytesCount = []"
| "emit_stats endT cmdType cmdQueryId txBytesCount rcv (t # ts) rxBytesCount =
     (let duration = Sub endT t;
          took = (word_of_int (Microseconds duration) :: u64);
          rxBytesCount = rxBytesCount + getRxLen rcv;
          stat = AddEntry NewStat cmdType cmdQueryId took False False txBytesCount rxBytesCount
      in stat # emit_stats endT cmdType cmdQueryId txBytesCount rcv ts rxBytesCount)"

text \<open>
  \<open>sendIfRequired\<close>. Below the threshold nothing happens. At the threshold the whole
  buffer goes out in one round trip and the clock is read once; an error is fatal unless
  \<open>continueOnErr\<close> is set, in which case it is logged if \<open>debug > 0\<close>; then the
  statistics are sent on \<open>cmdChan\<close> and both buffers are replaced by empty ones.
\<close>

definition sendIfRequired ::
  "env \<Rightarrow> options \<Rightarrow> processor \<Rightarrow> string \<Rightarrow> string \<Rightarrow> CmdAction list \<Rightarrow> string option
     \<Rightarrow> Time list \<Rightarrow> u64 \<Rightarrow> reply \<Rightarrow> u64 \<Rightarrow> world
     \<Rightarrow> failure + ((CmdAction list \<times> Time list) \<times> processor \<times> world)" where
  "sendIfRequired e opts p cmdType cmdQueryId cmds err times' rxBytesCount rcv txBytesCount w =
     (if pipeline opts \<le> int (length cmds) then
        (case vanillaClient p of
           None \<Rightarrow> Inl NilDereference
         | Some _ \<Rightarrow>
            (let (err, w) = Do_Pipeline e cmds w;
                 (endT, w) = Now e w
             in case (case err of
                        None \<Rightarrow> Inr w
                      | Some msg \<Rightarrow>
                          if continueOnErr opts then
                            (if 0 < debug opts
                             then Inr (w\<lparr>logged := logged w @ [ReceivedError cmds msg]\<rparr>)
                             else Inr w)
                          else Inl (Fatal msg)) of
                  Inl f \<Rightarrow> Inl f
                | Inr w \<Rightarrow>
                    (let p = p\<lparr>cmdChan := cmdChan p @
                                 emit_stats endT cmdType cmdQueryId txBytesCount rcv times' rxBytesCount\<rparr>
                     in Inr (([], []), p, w))))
      else Inr ((cmds, times'), p, w))"

text \<open>
  \<open>sendFlatCmd\<close>: \<open>docfields[0]\<close> panics on an empty argument list; the command and the
  time of its enqueueing are appended, then the flush is tried with \<open>err = nil\<close>,
  \<open>rxBytesCount = 0\<close> and \<open>rcv = nil\<close>.
\<close>

definition sendFlatCmd ::
  "env \<Rightarrow> options \<Rightarrow> processor \<Rightarrow> string \<Rightarrow> string \<Rightarrow> string \<Rightarrow> string list \<Rightarrow> u64 \<Rightarrow> u64
     \<Rightarrow> CmdAction list \<Rightarrow> Time list \<Rightarrow> world
     \<Rightarrow> failure + ((CmdAction list \<times> Time list) \<times> processor \<times> world)" where
  "sendFlatCmd e opts p cmdType cmdQueryId cmd docfields txBytesCount insertCount cmds times' w =
     (case docfields of
        [] \<Rightarrow> Inl IndexOutOfRange
      | d # ds \<Rightarrow>
         (let radixFlatCmd = \<lparr>cmdName = cmd, cmdKey = d, cmdArgs = ds\<rparr>;
              cmds = cmds @ [radixFlatCmd];
              (start, w) = Now e w;
              times' = times' @ [start]
          in sendIfRequired e opts p cmdType cmdQueryId cmds None times' 0 NoReply txBytesCount w))"

subsection \<open>Processing a batch\<close>

text \<open>
  \<open>preProcessCmd\<close>: a row needs at least three CSV fields, the category, the identifier
  and the command; what follows are the arguments. The byte length is the unsigned
  difference \<open>uint64(len(row)) - uint64(len(cmdType))\<close>.
\<close>

definition preProcessCmd ::
  "env \<Rightarrow> string \<Rightarrow> string + (string \<times> string \<times> string \<times> string list \<times> u64)" where
  "preProcessCmd e row =
     (case csv_read e row of
        Inl err \<Rightarrow> Inl err
      | Inr argsStr \<Rightarrow>
          if 3 \<le> length argsStr then
            (let cmdType = argsStr ! 0;
                 cmdQueryId = argsStr ! 1;
                 cmd = argsStr ! 2;
                 args = (if 3 < length argsStr then drop 3 argsStr else []);
                 bytelen = (of_nat (length row) :: u64) - of_nat (length cmdType)
             in Inr (cmdType, cmdQueryId, cmd, args, bytelen))
          else Inl ''input string does not have the minimum required size of 2'')"

text \<open>
  \<open>connectionProcessor\<close>: the loop over the rows of the channel. Outside cluster mode
  there is one slot of pending commands and enqueue times; in cluster mode there is none
  and \<open>cmdSlots[slot]\<close> is out of range. A row that does not parse is skipped. What is
  still pending when the rows end is dropped with the local slots.
\<close>

fun connectionProcessor_rows ::
  "env \<Rightarrow> options \<Rightarrow> string list \<Rightarrow> (CmdAction list \<times> Time list) option \<Rightarrow> processor \<Rightarrow> world
     \<Rightarrow> failure + (processor \<times> world)" where
  "connectionProcessor_rows e opts [] slot0 p w = Inr (p, w)"
| "connectionProcessor_rows e opts (row # rows) slot0 p w =
     (case preProcessCmd e row of
        Inl err \<Rightarrow> connectionProcessor_rows e opts rows slot0 p w
      | Inr (cmdType, cmdQueryId, cmd, docFields, bytelen) \<Rightarrow>
         (case slot0 of
            None \<Rightarrow> Inl IndexOutOfRange
          | Some (cmds, times') \<Rightarrow>
             (case sendFlatCmd e opts p cmdType cmdQueryId cmd docFields bytelen 1 cmds times' w of
                Inl f \<Rightarrow> Inl f
              | Inr (slot', p, w) \<Rightarrow> connectionProcessor_rows e opts rows (Some slot') p w)))"

definition connectionProcessor ::
  "env \<Rightarrow> options \<Rightarrow> string list \<Rightarrow> processor \<Rightarrow> world \<Rightarrow> failure + (processor \<times> world)" where
  "connectionProcessor e opts rows p w =
     connectionProcessor_rows e opts rows
       (if \<not> clusterMode opts then Some ([], []) else None) p w"

text \<open>
  Modelled from the spec: \<open>eventsBatch\<close> and the pool \<open>ePool\<close> are declared outside the
  sources. A batch is its rows; the pool is the batches handed back for reuse.
\<close>

record eventsBatch =
  rows :: "string list"

text \<open>
  \<open>ProcessBatch\<close>. With \<open>doLoad\<close> the rows are handed to \<open>connectionProcessor\<close>, which
  runs to its end before the statistics on \<open>cmdChan\<close> are merged into the result; a
  panic or a fatal error there ends the process. In both cases the rows of the batch are
  then cut to length zero and the batch is put into the pool.
\<close>

definition ProcessBatch ::
  "env \<Rightarrow> options \<Rightarrow> processor \<Rightarrow> eventsBatch \<Rightarrow> bool \<Rightarrow> eventsBatch list \<Rightarrow> world
     \<Rightarrow> failure + (Stat \<times> eventsBatch \<times> eventsBatch list \<times> processor \<times> world)" where
  "ProcessBatch e opts p events doLoad ePool w =
     (let outstat = NewStat in
      case (if doLoad then
              (case connectionProcessor e opts (rows events) (p\<lparr>cmdChan := []\<rparr>) w of
                 Inl f \<Rightarrow> Inl f
               | Inr (p, w) \<Rightarrow> Inr (foldl Merge outstat (cmdChan p), p\<lparr>cmdChan := []\<rparr>, w))
            else Inr (outstat, p, w)) of
        Inl f \<Rightarrow> Inl f
      | Inr (outstat, p, w) \<Rightarrow>
          (let events = events\<lparr>rows := take 0 (rows events)\<rparr>
           in Inr (outstat, events, ePool @ [events], p, w)))"

text \<open>Examples: a clock that advances a millisecond per reading, a target that accepts
  or refuses every round trip, rows split at commas, and a processor with a pool.\<close>

fun split_commas :: "string \<Rightarrow> string \<Rightarrow> string list" where
  "split_commas acc [] = [rev acc]"
| "split_commas acc (c # cs) =
     (if c = CHR '','' then rev acc # split_commas [] cs else split_commas (c # acc) cs)"

definition example_env :: "bool \<Rightarrow> env" where
  "example_env fails =
     \<lparr>now_at = (\<lambda>n. 1000000 * int n),
      do_reply = (\<lambda>n cmds. if fails then Some ''connection reset'' else None),
      csv_read = (\<lambda>row. Inr (split_commas [] row))\<rparr>"

definition example_options :: "bool \<Rightarrow> int \<Rightarrow> options" where
  "example_options cont dbg =
     \<lparr>pipeline = 2, continueOnErr = cont, debug = dbg, clusterMode = False\<rparr>"

definition example_processor :: processor where
  "example_processor =
     \<lparr>cmdChan = [], vanillaClient = Some ''localhost:6379'', vanillaCluster = None\<rparr>"

definition example_world :: world where
  "example_world = \<lparr>clockReads = 0, roundTrips = [], logged = []\<rparr>"

definition example_cmds :: "CmdAction list" where
  "example_cmds =
     [\<lparr>cmdName = ''FT.ADD'', cmdKey = ''idx'', cmdArgs = [''doc1'']\<rparr>,
      \<lparr>cmdName = ''FT.ADD'', cmdKey = ''idx'', cmdArgs = [''doc2'']\<rparr>]"

definition example_batch :: eventsBatch where
  "example_batch =
     \<lparr>rows = [''WRITE,q1,FT.ADD,idx,doc1'', ''WRITE,q2,FT.ADD,idx,doc2'',
              ''READ,q3,FT.SEARCH,idx,hello'']\<rparr>"

section \<open>Duplex channels between the scanner and the workers\<close>

text \<open>
  Modelled from the spec: the type \<open>duplexChannel\<close>, its constructor and the scanner that
  sends on it are not part of the sources; only \<open>createChannels\<close> and the worker loop,
  which receives from \<open>toWorker\<close> and acknowledges with \<open>sendToScanner\<close>, are. The spec
  gives the contract: \<open>send\<close> blocks while the channel is full, \<open>receive\<close> hands out the
  oldest queued batch and reports \<open>ok = false\<close> once the channel is closed and drained,
  \<open>ack\<close> signals completion and frees one slot of the backpressure budget, \<open>close\<close>
  happens once and discards nothing. A batch is outstanding from its sending to its
  acknowledgement: while queued, and while a worker processes it.
\<close>

record 'b duplexChannel =
  queueLen :: nat
  toWorker :: "'b list"
  unacked :: nat
  closed :: bool

definition newDuplexChannel :: "nat \<Rightarrow> 'b duplexChannel" where
  "newDuplexChannel n = \<lparr>queueLen = n, toWorker = [], unacked = 0, closed = False\<rparr>"

definition outstanding :: "'b duplexChannel \<Rightarrow> nat" where
  "outstanding c = length (toWorker c) + unacked c"

text \<open>
  Each operation gives \<open>None\<close> where its caller cannot proceed in this state: the
  scanner sending on a full channel, a worker receiving from an empty open one.
\<close>

definition sendToWorker :: "'b \<Rightarrow> 'b duplexChannel \<Rightarrow> 'b duplexChannel option" where
  "sendToWorker b c =
     (if closed c then None
      else if outstanding c < queueLen c then Some (c\<lparr>toWorker := toWorker c @ [b]\<rparr>)
      else None)"

definition receive :: "'b duplexChannel \<Rightarrow> ('b option \<times> 'b duplexChannel) option" where
  "receive c =
     (case toWorker c of
        b # bs \<Rightarrow> Some (Some b, c\<lparr>toWorker := bs, unacked := Suc (unacked c)\<rparr>)
      | [] \<Rightarrow> if closed c then Some (None, c) else None)"

definition sendToScanner :: "'b duplexChannel \<Rightarrow> 'b duplexChannel option" where
  "sendToScanner c = (if 0 < unacked c then Some (c\<lparr>unacked := unacked c - 1\<rparr>) else None)"

definition close :: "'b duplexChannel \<Rightarrow> 'b duplexChannel option" where
  "close c = (if closed c then None else Some (c\<lparr>closed := True\<rparr>))"

text \<open>
  \<open>createChannels\<close>: one queue per worker when \<open>workQueues\<close> is \<open>WorkerPerQueue\<close>,
  never more queues than workers, and every queue with room for
  \<open>math.Ceil(float64(l.workers) / float64(workQueuesToCreate))\<close> batches. The ceiling of
  the quotient is computed on the naturals, which agrees with the floating-point
  computation for the worker counts a machine can run. Without workers no channel is
  created and the capacity is not used.
\<close>

definition WorkerPerQueue :: nat where
  "WorkerPerQueue = 0"

definition createChannels :: "nat \<Rightarrow> nat \<Rightarrow> failure + 'b duplexChannel list" where
  "createChannels workers workQueues =
     (if workQueues \<noteq> WorkerPerQueue \<and> workers < workQueues
      then Inl (Panic ''cannot have more work queues than workers'')
      else
        (let workQueuesToCreate = (if workQueues = WorkerPerQueue then workers else workQueues);
             workersPerQueue = (workers + workQueuesToCreate - 1) div workQueuesToCreate
         in Inr (replicate workQueuesToCreate (newDuplexChannel workersPerQueue))))"

text \<open>
  The scanner and the workers run concurrently; an execution is an interleaving of their
  operations, each on one of the channels. A step that its caller cannot take has no
  successor state.
\<close>

datatype 'b chan_op = Send 'b | Receive | Ack | Close

definition chan_step :: "'b duplexChannel \<Rightarrow> 'b chan_op \<Rightarrow> 'b duplexChannel option" where
  "chan_step c ev =
     (case ev of
        Send b \<Rightarrow> sendToWorker b c
      | Receive \<Rightarrow> map_option snd (receive c)
      | Ack \<Rightarrow> sendToScanner c
      | Close \<Rightarrow> close c)"

definition system_step ::
  "'b duplexChannel list \<Rightarrow> nat \<times> 'b chan_op \<Rightarrow> 'b duplexChannel list option" where
  "system_step cs iev =
     (let (i, ev) = iev in
      if i < length cs then
        (case chan_step (cs ! i) ev of
           None \<Rightarrow> None
         | Some c \<Rightarrow> Some (cs[i := c]))
      else None)"

fun system_run ::
  "'b duplexChannel list \<Rightarrow> (nat \<times> 'b chan_op) list \<Rightarrow> 'b duplexChannel list option" where
  "system_run cs [] = Some cs"
| "system_run cs (iev # ievs) =
     (case system_step cs iev of None \<Rightarrow> None | Some cs' \<Rightarrow> system_run cs' ievs)"

section \<open>Views of the runner state\<close>

text \<open>
  The twelve per-category histograms, as cumulative and instantaneous pairs in the order
  setup-write, write, update, read, cursor-read, delete; and the labels of the \<open>switch\<close>.
\<close>

definition perCategory :: "BenchmarkRunner \<Rightarrow> Histogram list" where
  "perCategory l =
     [setupWriteHistogram l, inst_setupWriteHistogram l,
      writeHistogram l, inst_writeHistogram l,
      updateHistogram l, inst_updateHistogram l,
      readHistogram l, inst_readHistogram l,
      readCursorHistogram l, inst_readCursorHistogram l,
      deleteHistogram l, inst_deleteHistogram l]"

definition recognizedLabels :: "string list" where
  "recognizedLabels = [''SETUP_WRITE'', ''WRITE'', ''UPDATE'', ''READ'', ''CURSOR_READ'', ''DELETE'']"

text \<open>A statistic with a given label, latency 250 microseconds, 10 bytes sent, 3 received.\<close>

definition example_cmdStat :: "string \<Rightarrow> CmdStat" where
  "example_cmdStat lbl =
     \<lparr>Label = lbl, CmdQueryId = ''q1'', Latency = 250, IsUpdate = False, IsDelete = False,
      Tx = 10, Rx = 3\<rparr>"

text \<open>A runner whose write series was appended with timestamps out of order.\<close>

definition example_jitter :: BenchmarkRunner where
  "example_jitter =
     loader\<lparr>writeTs := [\<lparr>Timestamp = 3, MultiValue = Map.empty\<rparr>,
                         \<lparr>Timestamp = 1, MultiValue = Map.empty\<rparr>,
                         \<lparr>Timestamp = 2, MultiValue = Map.empty\<rparr>]\<rparr>"

text \<open>A channel of capacity two with one batch queued and one being processed.\<close>

definition example_full_channel :: "nat duplexChannel" where
  "example_full_channel = \<lparr>queueLen = 2, toWorker = [2], unacked = 1, closed = False\<rparr>"

text \<open>A statistic whose latency, two seconds, is above the range of the histograms.\<close>

definition example_slow_cmdStat :: "string \<Rightarrow> CmdStat" where
  "example_slow_cmdStat lbl =
     \<lparr>Label = lbl, CmdQueryId = ''q2'', Latency = 2000000, IsUpdate = False, IsDelete = False,
      Tx = 10, Rx = 3\<rparr>"

text \<open>
  For stating what a histogram holds after a run of statistics: \<open>in_range h v\<close> says that
  \<open>RecordValue\<close> accepts \<open>v\<close>, and \<open>record_where sel cs h\<close> is \<open>h\<close> with the latencies of
  those statistics of \<open>cs\<close> added, in their order, that satisfy \<open>sel\<close> and are in range.
\<close>

definition in_range :: "Histogram \<Rightarrow> int \<Rightarrow> bool" where
  "in_range h v = (lowestTrackableValue h \<le> v \<and> v \<le> highestTrackableValue h)"

definition record_where :: "(CmdStat \<Rightarrow> bool) \<Rightarrow> CmdStat list \<Rightarrow> Histogram \<Rightarrow> Histogram" where
  "record_where sel cs h =
     h\<lparr>recorded :=
         rev (map (\<lambda>c. sint (Latency c))
                  (filter (\<lambda>c. sel c \<and> in_range h (sint (Latency c))) cs))
         @ recorded h\<rparr>"

text \<open>The statistics that the workers aggregate in an execution, in order.\<close>

definition stat_of_event :: "run_event \<Rightarrow> CmdStat option" where
  "stat_of_event e = (case e of Aggregate c \<Rightarrow> Some c | Tick now \<Rightarrow> None)"

definition aggregated :: "run_event list \<Rightarrow> CmdStat list" where
  "aggregated es = List.map_filter stat_of_event es"

text \<open>
  The statistics of a batch: a write, a write that took two seconds, a statistic with a
  label outside the six, and a read.
\<close>

definition example_stats :: Stat where
  "example_stats =
     \<lparr>CmdStats = [example_cmdStat ''WRITE'', example_slow_cmdStat ''WRITE'',
                  example_cmdStat ''PING'', example_cmdStat ''READ'']\<rparr>"

section \<open>Properties\<close>

subsection \<open>Partition indexer\<close>

lemma sint_small: "unat (w :: u64) < 2 ^ 63 \<Longrightarrow> sint w = int (unat w)"
proof -
  assume a: "unat w < 2 ^ 63"
  have "int (unat w) < int (2 ^ 63)"
    using a by (rule iffD2 [OF of_nat_less_iff])
  then have lt: "uint w < 2 ^ 63"
    by simp
  have ge: "- (2 ^ 63) \<le> uint w"
    by (rule order_trans [of _ 0]) simp_all
  have "signed_take_bit 63 (uint w) = uint w"
    using ge lt by (rule signed_take_bit_int_eq_self)
  then show ?thesis
    by (simp add: sint_uint)
qed

text \<open>
  Claim C5. With the same number of partitions, the partition of a record is a function
  of the number of records read so far only: the point itself is not consulted, the index
  is \<open>itemsRead mod numPartitions\<close>, and it lies in \<open>[0, numPartitions)\<close>. The number
  of partitions is the length of the channel slice, so it does not exceed \<open>2^63\<close>; at
  least one partition must exist for the interval to be inhabited, and with none the
  remainder panics.
\<close>

theorem GetIndex_deterministic_mod_in_range:
  fixes p p' :: 'point
  assumes "partitions i \<noteq> 0" and "unat (partitions i) \<le> 2 ^ 63"
  shows "GetIndex i itemsRead p = Inr (int (unat itemsRead mod unat (partitions i)))
       \<and> GetIndex i itemsRead p = GetIndex i itemsRead p'
       \<and> (\<exists>k. GetIndex i itemsRead p = Inr k \<and> 0 \<le> k \<and> k < int (unat (partitions i)))"
proof -
  let ?n = "unat (partitions i)"
  from assms(1) have pos: "0 < ?n"
    by (simp add: unat_gt_0)
  have m: "unat (itemsRead mod partitions i) = unat itemsRead mod ?n"
    by (simp add: unat_mod)
  have "unat itemsRead mod ?n < ?n"
    using pos by simp
  with assms(2) have "unat (itemsRead mod partitions i) < 2 ^ 63"
    using m by linarith
  then have s: "sint (itemsRead mod partitions i) = int (unat itemsRead mod ?n)"
    using sint_small m by metis
  have "unat itemsRead mod ?n < ?n"
    using pos by simp
  then have lt: "int (unat itemsRead mod ?n) < int ?n"
    by (rule iffD2 [OF of_nat_less_iff])
  have g: "GetIndex i itemsRead q = Inr (int (unat itemsRead mod ?n))" for q :: 'point
    using assms(1) s by (simp only: GetIndex_def if_False)
  have ge: "0 \<le> int (unat itemsRead mod ?n)"
    by (rule of_nat_0_le_iff)
  from g [of p] g [of p'] ge lt show ?thesis
    by (intro conjI exI [of _ "int (unat itemsRead mod ?n)"]) (simp_all only:)
qed

theorem GetIndex_deterministic_mod_in_range_witness:
  "partitions \<lparr>partitions = 4\<rparr> \<noteq> 0
   \<and> GetIndex \<lparr>partitions = 4\<rparr> 10 ''a'' = Inr 2
   \<and> GetIndex \<lparr>partitions = 4\<rparr> 10 ''a'' = GetIndex \<lparr>partitions = 4\<rparr> 10 ''b''"
proof -
  have h1: "partitions \<lparr>partitions = 4\<rparr> \<noteq> 0" by simp
  have h2: "unat (partitions \<lparr>partitions = 4\<rparr>) \<le> 2 ^ 63" by simp
  note t = GetIndex_deterministic_mod_in_range [OF h1 h2, of 10 "''a''" "''b''"]
  have v: "int (unat (10 :: u64) mod unat (partitions \<lparr>partitions = 4\<rparr>)) = 2"
    by simp
  have c1: "GetIndex \<lparr>partitions = 4\<rparr> 10 ''a'' = Inr 2"
    using t [THEN conjunct1] unfolding v .
  have c2: "GetIndex \<lparr>partitions = 4\<rparr> 10 ''a'' = GetIndex \<lparr>partitions = 4\<rparr> 10 ''b''"
    using t [THEN conjunct2, THEN conjunct1] .
  from h1 c1 c2 show ?thesis by (intro conjI)
qed

subsection \<open>The worker's aggregation step\<close>

lemma TotalCount_RecordValue_discard:
  "TotalCount (RecordValue_discard h v) =
     TotalCount h + (if lowestTrackableValue h \<le> v \<and> v \<le> highestTrackableValue h then 1 else 0)"
  by (simp add: TotalCount_def RecordValue_discard_def RecordValue_def)

text \<open>
  One step of the loop: the label selects the pair that \<open>RecordValue\<close> is called on, and
  both total histograms and both byte counters are updated whatever the label is.
\<close>

lemma work_cmdStat_routes_step:
  "(Label c = ''SETUP_WRITE'' \<longrightarrow> perCategory (work_cmdStat l c) =
      (perCategory l)[0 := RecordValue_discard (setupWriteHistogram l) (sint (Latency c)),
                      1 := RecordValue_discard (inst_setupWriteHistogram l) (sint (Latency c))])
   \<and> (Label c = ''WRITE'' \<longrightarrow> perCategory (work_cmdStat l c) =
      (perCategory l)[2 := RecordValue_discard (writeHistogram l) (sint (Latency c)),
                      3 := RecordValue_discard (inst_writeHistogram l) (sint (Latency c))])
   \<and> (Label c = ''UPDATE'' \<longrightarrow> perCategory (work_cmdStat l c) =
      (perCategory l)[4 := RecordValue_discard (updateHistogram l) (sint (Latency c)),
                      5 := RecordValue_discard (inst_updateHistogram l) (sint (Latency c))])
   \<and> (Label c = ''READ'' \<longrightarrow> perCategory (work_cmdStat l c) =
      (perCategory l)[6 := RecordValue_discard (readHistogram l) (sint (Latency c)),
                      7 := RecordValue_discard (inst_readHistogram l) (sint (Latency c))])
   \<and> (Label c = ''CURSOR_READ'' \<longrightarrow> perCategory (work_cmdStat l c) =
      (perCategory l)[8 := RecordValue_discard (readCursorHistogram l) (sint (Latency c)),
                      9 := RecordValue_discard (inst_readCursorHistogram l) (sint (Latency c))])
   \<and> (Label c = ''DELETE'' \<longrightarrow> perCategory (work_cmdStat l c) =
      (perCategory l)[10 := RecordValue_discard (deleteHistogram l) (sint (Latency c)),
                      11 := RecordValue_discard (inst_deleteHistogram l) (sint (Latency c))])
   \<and> (Label c \<notin> set recognizedLabels \<longrightarrow> perCategory (work_cmdStat l c) = perCategory l)"
  by (simp add: work_cmdStat_def Let_def perCategory_def recognizedLabels_def)

lemma work_cmdStat_totals_step:
  "totalHistogram (work_cmdStat l c) = RecordValue_discard (totalHistogram l) (sint (Latency c))
   \<and> inst_totalHistogram (work_cmdStat l c)
       = RecordValue_discard (inst_totalHistogram l) (sint (Latency c))
   \<and> txTotalBytes (work_cmdStat l c) = txTotalBytes l + Tx c
   \<and> rxTotalBytes (work_cmdStat l c) = rxTotalBytes l + Rx c
   \<and> TotalCount (totalHistogram (work_cmdStat l c)) =
       TotalCount (totalHistogram l) +
       (if lowestTrackableValue (totalHistogram l) \<le> sint (Latency c)
           \<and> sint (Latency c) \<le> highestTrackableValue (totalHistogram l) then 1 else 0)"
  by (simp add: work_cmdStat_def Let_def TotalCount_RecordValue_discard)

text \<open>
  \<open>RecordValue\<close> with its error discarded records the value exactly when it is in range.
  A loop whose steps apply it to one histogram for the selected statistics leaves that
  histogram with the selected in-range latencies added; this holds for the loop of
  \<open>work\<close> over the statistics of a batch, and for a whole execution, in which the ticks
  of the reporter leave the cumulative histograms alone.
\<close>

lemma RecordValue_discard_eq:
  "RecordValue_discard h v = (if in_range h v then h\<lparr>recorded := v # recorded h\<rparr> else h)"
  by (simp add: RecordValue_discard_def RecordValue_def in_range_def)

lemma record_where_Nil: "record_where sel [] h = h"
  by (simp add: record_where_def)

lemma record_where_Cons:
  "record_where sel (c # cs) h =
     record_where sel cs (if sel c then RecordValue_discard h (sint (Latency c)) else h)"
  by (simp add: record_where_def RecordValue_discard_eq in_range_def)

lemma foldl_record_where:
  assumes step: "\<And>s e. g (step s e) =
      (case stat_of e of
         Some c \<Rightarrow> if sel c then RecordValue_discard (g s) (sint (Latency c)) else g s
       | None \<Rightarrow> g s)"
  shows "g (foldl step s es) = record_where sel (List.map_filter stat_of es) (g s)"
proof (induction es arbitrary: s)
  case Nil
  show ?case by (simp add: record_where_Nil map_filter_simps)
next
  case (Cons e es)
  have "g (foldl step s (e # es)) = record_where sel (List.map_filter stat_of es) (g (step s e))"
    using Cons.IH [of "step s e"] by simp
  also have "\<dots> = record_where sel (List.map_filter stat_of (e # es)) (g s)"
    by (cases "stat_of e") (simp_all add: step map_filter_simps record_where_Cons)
  finally show ?case .
qed

lemma map_filter_Some: "List.map_filter Some xs = xs"
  by (induction xs) (simp_all add: map_filter_simps)

lemma work_batch_record_where:
  assumes "\<And>l c. g (work_cmdStat l c) =
      (if sel c then RecordValue_discard (g l) (sint (Latency c)) else g l)"
  shows "g (work_batch l stats) = record_where sel (CmdStats stats) (g l)"
  using foldl_record_where [where g = g and step = work_cmdStat and stat_of = Some and sel = sel
      and s = l and es = "CmdStats stats"] assms
  by (simp add: work_batch_def map_filter_Some)

lemma run_events_record_where:
  assumes "\<And>l c. g (work_cmdStat l c) =
      (if sel c then RecordValue_discard (g l) (sint (Latency c)) else g l)"
    and "\<And>now st. g (snd (report_tick vaq now st)) = g (snd st)"
  shows "g (snd (run_events vaq st es)) = record_where sel (aggregated es) (g (snd st))"
proof -
  have "g (snd (run_event vaq s e)) =
      (case stat_of_event e of
         Some c \<Rightarrow> if sel c then RecordValue_discard (g (snd s)) (sint (Latency c)) else g (snd s)
       | None \<Rightarrow> g (snd s))" for s e
    by (cases e) (simp_all add: run_event_def stat_of_event_def assms)
  from foldl_record_where [where g = "\<lambda>s. g (snd s)" and step = "run_event vaq"
      and stat_of = stat_of_event and sel = sel and s = st and es = es, OF this]
  show ?thesis by (simp add: run_events_def aggregated_def)
qed

lemma work_cmdStat_category_step:
  "setupWriteHistogram (work_cmdStat l c) =
     (if Label c = ''SETUP_WRITE'' then RecordValue_discard (setupWriteHistogram l) (sint (Latency c))
      else setupWriteHistogram l)"
  "inst_setupWriteHistogram (work_cmdStat l c) =
     (if Label c = ''SETUP_WRITE'' then RecordValue_discard (inst_setupWriteHistogram l) (sint (Latency c))
      else inst_setupWriteHistogram l)"
  "writeHistogram (work_cmdStat l c) =
     (if Label c = ''WRITE'' then RecordValue_discard (writeHistogram l) (sint (Latency c))
      else writeHistogram l)"
  "inst_writeHistogram (work_cmdStat l c) =
     (if Label c = ''WRITE'' then RecordValue_discard (inst_writeHistogram l) (sint (Latency c))
      else inst_writeHistogram l)"
  "updateHistogram (work_cmdStat l c) =
     (if Label c = ''UPDATE'' then RecordValue_discard (updateHistogram l) (sint (Latency c))
      else updateHistogram l)"
  "inst_updateHistogram (work_cmdStat l c) =
     (if Label c = ''UPDATE'' then RecordValue_discard (inst_updateHistogram l) (sint (Latency c))
      else inst_updateHistogram l)"
  "readHistogram (work_cmdStat l c) =
     (if Label c = ''READ'' then RecordValue_discard (readHistogram l) (sint (Latency c))
      else readHistogram l)"
  "inst_readHistogram (work_cmdStat l c) =
     (if Label c = ''READ'' then RecordValue_discard (inst_readHistogram l) (sint (Latency c))
      else inst_readHistogram l)"
  "readCursorHistogram (work_cmdStat l c) =
     (if Label c = ''CURSOR_READ'' then RecordValue_discard (readCursorHistogram l) (sint (Latency c))
      else readCursorHistogram l)"
  "inst_readCursorHistogram (work_cmdStat l c) =
     (if Label c = ''CURSOR_READ'' then RecordValue_discard (inst_readCursorHistogram l) (sint (Latency c))
      else inst_readCursorHistogram l)"
  "deleteHistogram (work_cmdStat l c) =
     (if Label c = ''DELETE'' then RecordValue_discard (deleteHistogram l) (sint (Latency c))
      else deleteHistogram l)"
  "inst_deleteHistogram (work_cmdStat l c) =
     (if Label c = ''DELETE'' then RecordValue_discard (inst_deleteHistogram l) (sint (Latency c))
      else inst_deleteHistogram l)"
  by (simp_all add: work_cmdStat_def Let_def)

lemma work_cmdStat_total_step:
  "totalHistogram (work_cmdStat l c) =
     (if True then RecordValue_discard (totalHistogram l) (sint (Latency c)) else totalHistogram l)"
  "inst_totalHistogram (work_cmdStat l c) =
     (if True then RecordValue_discard (inst_totalHistogram l) (sint (Latency c))
      else inst_totalHistogram l)"
  by (simp_all add: work_cmdStat_def Let_def)

lemma work_cmdStat_bytes_step:
  "txTotalBytes (work_cmdStat l c) = txTotalBytes l + Tx c"
  "rxTotalBytes (work_cmdStat l c) = rxTotalBytes l + Rx c"
  by (simp_all add: work_cmdStat_def Let_def)

lemma work_batch_bytes:
  "txTotalBytes (work_batch l stats) = txTotalBytes l + sum_list (map Tx (CmdStats stats))"
  "rxTotalBytes (work_batch l stats) = rxTotalBytes l + sum_list (map Rx (CmdStats stats))"
proof -
  have "txTotalBytes (foldl work_cmdStat l cs) = txTotalBytes l + sum_list (map Tx cs)
      \<and> rxTotalBytes (foldl work_cmdStat l cs) = rxTotalBytes l + sum_list (map Rx cs)" for cs
    by (induction cs arbitrary: l) (simp_all add: work_cmdStat_bytes_step algebra_simps)
  then show "txTotalBytes (work_batch l stats) = txTotalBytes l + sum_list (map Tx (CmdStats stats))"
    and "rxTotalBytes (work_batch l stats) = rxTotalBytes l + sum_list (map Rx (CmdStats stats))"
    by (simp_all add: work_batch_def)
qed

lemma report_tick_cumulative_fields:
  "setupWriteHistogram (snd (report_tick vaq now st)) = setupWriteHistogram (snd st)"
  "writeHistogram (snd (report_tick vaq now st)) = writeHistogram (snd st)"
  "updateHistogram (snd (report_tick vaq now st)) = updateHistogram (snd st)"
  "readHistogram (snd (report_tick vaq now st)) = readHistogram (snd st)"
  "readCursorHistogram (snd (report_tick vaq now st)) = readCursorHistogram (snd st)"
  "deleteHistogram (snd (report_tick vaq now st)) = deleteHistogram (snd st)"
  "totalHistogram (snd (report_tick vaq now st)) = totalHistogram (snd st)"
  by (cases st; simp add: report_tick_def Let_def)+

lemma record_where_none: "\<forall>c \<in> set cs. \<not> sel c \<Longrightarrow> record_where sel cs h = h"
proof -
  assume "\<forall>c \<in> set cs. \<not> sel c"
  then have "filter (\<lambda>c. sel c \<and> in_range h (sint (Latency c))) cs = []"
    by (simp add: filter_empty_conv)
  then show ?thesis by (simp add: record_where_def)
qed

lemma TotalCount_record_where:
  "TotalCount (record_where sel cs h) =
     TotalCount h + int (length (filter (\<lambda>c. sel c \<and> in_range h (sint (Latency c))) cs))"
  by (simp add: TotalCount_def record_where_def)

text \<open>
  Claim C6, as stated: every statistic with one of the six labels is recorded into the
  pair of its category. A \<open>WRITE\<close> statistic with a latency of two seconds: \<open>RecordValue\<close>
  refuses the value, the worker discards the error, and the twelve per-category
  histograms are as before.
\<close>

theorem work_cmdStat_slow_write_not_recorded_counterexample:
  "Label (example_slow_cmdStat ''WRITE'') = ''WRITE''
   \<and> sint (Latency (example_slow_cmdStat ''WRITE'')) = 2000000
   \<and> RecordValue (writeHistogram loader) 2000000 = Inl (ValueOutOfRange 2000000)
   \<and> perCategory (work_cmdStat loader (example_slow_cmdStat ''WRITE'')) = perCategory loader"
  by (simp add: example_slow_cmdStat_def work_cmdStat_def Let_def perCategory_def loader_def
      RecordValue_discard_def RecordValue_def New_def)

text \<open>
  Claim C6, amended. For the statistics that \<open>ProcessBatch\<close> returns for a batch, each
  per-category histogram, cumulative or instantaneous, receives exactly the latencies of
  the statistics that carry the label of its category and lie in its range, in order; a
  latency out of range is dropped with its error discarded, and a statistic with any
  other label reaches none of the twelve. The loop is a total function of the runner
  state, so no statistic makes it fail. Over a whole execution of worker steps and
  reporter ticks the cumulative per-category histograms hold exactly what this routing
  put there: nothing else routes statistics to them.
\<close>

theorem work_routes_by_label_when_in_range:
  "setupWriteHistogram (work_batch l stats) =
       record_where (\<lambda>c. Label c = ''SETUP_WRITE'') (CmdStats stats) (setupWriteHistogram l)
   \<and> inst_setupWriteHistogram (work_batch l stats) =
       record_where (\<lambda>c. Label c = ''SETUP_WRITE'') (CmdStats stats) (inst_setupWriteHistogram l)
   \<and> writeHistogram (work_batch l stats) =
       record_where (\<lambda>c. Label c = ''WRITE'') (CmdStats stats) (writeHistogram l)
   \<and> inst_writeHistogram (work_batch l stats) =
       record_where (\<lambda>c. Label c = ''WRITE'') (CmdStats stats) (inst_writeHistogram l)
   \<and> updateHistogram (work_batch l stats) =
       record_where (\<lambda>c. Label c = ''UPDATE'') (CmdStats stats) (updateHistogram l)
   \<and> inst_updateHistogram (work_batch l stats) =
       record_where (\<lambda>c. Label c = ''UPDATE'') (CmdStats stats) (inst_updateHistogram l)
   \<and> readHistogram (work_batch l stats) =
       record_where (\<lambda>c. Label c = ''READ'') (CmdStats stats) (readHistogram l)
   \<and> inst_readHistogram (work_batch l stats) =
       record_where (\<lambda>c. Label c = ''READ'') (CmdStats stats) (inst_readHistogram l)
   \<and> readCursorHistogram (work_batch l stats) =
       record_where (\<lambda>c. Label c = ''CURSOR_READ'') (CmdStats stats) (readCursorHistogram l)
   \<and> inst_readCursorHistogram (work_batch l stats) =
       record_where (\<lambda>c. Label c = ''CURSOR_READ'') (CmdStats stats) (inst_readCursorHistogram l)
   \<and> deleteHistogram (work_batch l stats) =
       record_where (\<lambda>c. Label c = ''DELETE'') (CmdStats stats) (deleteHistogram l)
   \<and> inst_deleteHistogram (work_batch l stats) =
       record_where (\<lambda>c. Label c = ''DELETE'') (CmdStats stats) (inst_deleteHistogram l)
   \<and> ((\<forall>c \<in> set (CmdStats stats). Label c \<notin> set recognizedLabels) \<longrightarrow>
       perCategory (work_batch l stats) = perCategory l)
   \<and> setupWriteHistogram (snd (run_events vaq st es)) =
       record_where (\<lambda>c. Label c = ''SETUP_WRITE'') (aggregated es) (setupWriteHistogram (snd st))
   \<and> writeHistogram (snd (run_events vaq st es)) =
       record_where (\<lambda>c. Label c = ''WRITE'') (aggregated es) (writeHistogram (snd st))
   \<and> updateHistogram (snd (run_events vaq st es)) =
       record_where (\<lambda>c. Label c = ''UPDATE'') (aggregated es) (updateHistogram (snd st))
   \<and> readHistogram (snd (run_events vaq st es)) =
       record_where (\<lambda>c. Label c = ''READ'') (aggregated es) (readHistogram (snd st))
   \<and> readCursorHistogram (snd (run_events vaq st es)) =
       record_where (\<lambda>c. Label c = ''CURSOR_READ'') (aggregated es) (readCursorHistogram (snd st))
   \<and> deleteHistogram (snd (run_events vaq st es)) =
       record_where (\<lambda>c. Label c = ''DELETE'') (aggregated es) (deleteHistogram (snd st))"
proof -
  have b0: "setupWriteHistogram (work_batch l stats) =
       record_where (\<lambda>c. Label c = ''SETUP_WRITE'') (CmdStats stats) (setupWriteHistogram l)"
    by (rule work_batch_record_where, rule work_cmdStat_category_step(1))
  have b1: "inst_setupWriteHistogram (work_batch l stats) =
       record_where (\<lambda>c. Label c = ''SETUP_WRITE'') (CmdStats stats) (inst_setupWriteHistogram l)"
    by (rule work_batch_record_where, rule work_cmdStat_category_step(2))
  have b2: "writeHistogram (work_batch l stats) =
       record_where (\<lambda>c. Label c = ''WRITE'') (CmdStats stats) (writeHistogram l)"
    by (rule work_batch_record_where, rule work_cmdStat_category_step(3))
  have b3: "inst_writeHistogram (work_batch l stats) =
       record_where (\<lambda>c. Label c = ''WRITE'') (CmdStats stats) (inst_writeHistogram l)"
    by (rule work_batch_record_where, rule work_cmdStat_category_step(4))
  have b4: "updateHistogram (work_batch l stats) =
       record_where (\<lambda>c. Label c = ''UPDATE'') (CmdStats stats) (updateHistogram l)"
    by (rule work_batch_record_where, rule work_cmdStat_category_step(5))
  have b5: "inst_updateHistogram (work_batch l stats) =
       record_where (\<lambda>c. Label c = ''UPDATE'') (CmdStats stats) (inst_updateHistogram l)"
    by (rule work_batch_record_where, rule work_cmdStat_category_step(6))
  have b6: "readHistogram (work_batch l stats) =
       record_where (\<lambda>c. Label c = ''READ'') (CmdStats stats) (readHistogram l)"
    by (rule work_batch_record_where, rule work_cmdStat_category_step(7))
  have b7: "inst_readHistogram (work_batch l stats) =
       record_where (\<lambda>c. Label c = ''READ'') (CmdStats stats) (inst_readHistogram l)"
    by (rule work_batch_record_where, rule work_cmdStat_category_step(8))
  have b8: "readCursorHistogram (work_batch l stats) =
       record_where (\<lambda>c. Label c = ''CURSOR_READ'') (CmdStats stats) (readCursorHistogram l)"
    by (rule work_batch_record_where, rule work_cmdStat_category_step(9))
  have b9: "inst_readCursorHistogram (work_batch l stats) =
       record_where (\<lambda>c. Label c = ''CURSOR_READ'') (CmdStats stats) (inst_readCursorHistogram l)"
    by (rule work_batch_record_where, rule work_cmdStat_category_step(10))
  have b10: "deleteHistogram (work_batch l stats) =
       record_where (\<lambda>c. Label c = ''DELETE'') (CmdStats stats) (deleteHistogram l)"
    by (rule work_batch_record_where, rule work_cmdStat_category_step(11))
  have b11: "inst_deleteHistogram (work_batch l stats) =
       record_where (\<lambda>c. Label c = ''DELETE'') (CmdStats stats) (inst_deleteHistogram l)"
    by (rule work_batch_record_where, rule work_cmdStat_category_step(12))
  have u: "((\<forall>c \<in> set (CmdStats stats). Label c \<notin> set recognizedLabels) \<longrightarrow>
       perCategory (work_batch l stats) = perCategory l)"
  proof
    assume a: "\<forall>c \<in> set (CmdStats stats). Label c \<notin> set recognizedLabels"
    have n: "record_where (\<lambda>c. Label c = L) (CmdStats stats) h = h"
      if "L \<in> set recognizedLabels" for L h
      using a that by (intro record_where_none) auto
    show "perCategory (work_batch l stats) = perCategory l"
      unfolding perCategory_def b0 b1 b2 b3 b4 b5 b6 b7 b8 b9 b10 b11
      by (simp add: n recognizedLabels_def)
  qed
  have r0: "setupWriteHistogram (snd (run_events vaq st es)) =
       record_where (\<lambda>c. Label c = ''SETUP_WRITE'') (aggregated es) (setupWriteHistogram (snd st))"
    by (rule run_events_record_where, rule work_cmdStat_category_step(1), rule report_tick_cumulative_fields(1))
  have r1: "writeHistogram (snd (run_events vaq st es)) =
       record_where (\<lambda>c. Label c = ''WRITE'') (aggregated es) (writeHistogram (snd st))"
    by (rule run_events_record_where, rule work_cmdStat_category_step(3), rule report_tick_cumulative_fields(2))
  have r2: "updateHistogram (snd (run_events vaq st es)) =
       record_where (\<lambda>c. Label c = ''UPDATE'') (aggregated es) (updateHistogram (snd st))"
    by (rule run_events_record_where, rule work_cmdStat_category_step(5), rule report_tick_cumulative_fields(3))
  have r3: "readHistogram (snd (run_events vaq st es)) =
       record_where (\<lambda>c. Label c = ''READ'') (aggregated es) (readHistogram (snd st))"
    by (rule run_events_record_where, rule work_cmdStat_category_step(7), rule report_tick_cumulative_fields(4))
  have r4: "readCursorHistogram (snd (run_events vaq st es)) =
       record_where (\<lambda>c. Label c = ''CURSOR_READ'') (aggregated es) (readCursorHistogram (snd st))"
    by (rule run_events_record_where, rule work_cmdStat_category_step(9), rule report_tick_cumulative_fields(5))
  have r5: "deleteHistogram (snd (run_events vaq st es)) =
       record_where (\<lambda>c. Label c = ''DELETE'') (aggregated es) (deleteHistogram (snd st))"
    by (rule run_events_record_where, rule work_cmdStat_category_step(11), rule report_tick_cumulative_fields(6))
  from b0 b1 b2 b3 b4 b5 b6 b7 b8 b9 b10 b11 u r0 r1 r2 r3 r4 r5
  show ?thesis by (intro conjI)
qed

theorem work_routes_by_label_when_in_range_witness:
  "map TotalCount (perCategory (work_batch loader example_stats))
     = [0, 0, 1, 1, 0, 0, 1, 1, 0, 0, 0, 0]
   \<and> map recorded (perCategory (work_batch loader example_stats))
     = [[], [], [250], [250], [], [], [250], [250], [], [], [], []]
   \<and> perCategory (work_batch loader \<lparr>CmdStats = [example_cmdStat ''PING'']\<rparr>) = perCategory loader"
proof -
  note t = work_routes_by_label_when_in_range [of loader example_stats]
  have r: "map recorded (perCategory (work_batch loader example_stats))
     = [[], [], [250], [250], [], [], [250], [250], [], [], [], []]"
    using t
    by (simp add: perCategory_def record_where_def in_range_def example_stats_def
        example_cmdStat_def example_slow_cmdStat_def loader_def New_def)
  then have c: "map TotalCount (perCategory (work_batch loader example_stats))
     = [0, 0, 1, 1, 0, 0, 1, 1, 0, 0, 0, 0]"
    by (simp add: perCategory_def TotalCount_def)
  have "\<forall>c \<in> set (CmdStats \<lparr>CmdStats = [example_cmdStat ''PING'']\<rparr>).
          Label c \<notin> set recognizedLabels"
    by (simp add: example_cmdStat_def recognizedLabels_def)
  with work_routes_by_label_when_in_range [of loader "\<lparr>CmdStats = [example_cmdStat ''PING'']\<rparr>"]
  have u: "perCategory (work_batch loader \<lparr>CmdStats = [example_cmdStat ''PING'']\<rparr>)
             = perCategory loader"
    by blast
  from c r u show ?thesis by (intro conjI)
qed

text \<open>
  Claim C10, as stated: every statistic is recorded into both total histograms and so
  counts as an operation. A statistic with an unrecognized label and a latency of two
  seconds adds its bytes to the counters and leaves both total histograms, and the total
  count, as they were.
\<close>

theorem work_cmdStat_slow_stat_not_counted_counterexample:
  "sint (Latency (example_slow_cmdStat ''PING'')) = 2000000
   \<and> totalHistogram (work_cmdStat loader (example_slow_cmdStat ''PING'')) = totalHistogram loader
   \<and> inst_totalHistogram (work_cmdStat loader (example_slow_cmdStat ''PING''))
       = inst_totalHistogram loader
   \<and> TotalCount (totalHistogram (work_cmdStat loader (example_slow_cmdStat ''PING''))) = 0
   \<and> txTotalBytes (work_cmdStat loader (example_slow_cmdStat ''PING'')) = 10
   \<and> rxTotalBytes (work_cmdStat loader (example_slow_cmdStat ''PING'')) = 3"
  by (simp add: example_slow_cmdStat_def work_cmdStat_def Let_def loader_def
      RecordValue_discard_def RecordValue_def New_def TotalCount_def)

text \<open>
  Claim C10, amended. For the statistics that \<open>ProcessBatch\<close> returns for a batch and
  whatever their labels, the cumulative and the instantaneous total histogram receive the
  latencies that lie in their range, and the byte counts of every statistic are added to
  \<open>txTotalBytes\<close> and \<open>rxTotalBytes\<close>; none of this depends on the routing by label. So
  a statistic with an unrecognized label adds to the byte totals always and to the total
  operation count when its latency is in range; a latency out of range is dropped with
  its error discarded.
\<close>

theorem work_totals_any_label_when_in_range:
  "totalHistogram (work_batch l stats) =
       record_where (\<lambda>c. True) (CmdStats stats) (totalHistogram l)
   \<and> inst_totalHistogram (work_batch l stats) =
       record_where (\<lambda>c. True) (CmdStats stats) (inst_totalHistogram l)
   \<and> txTotalBytes (work_batch l stats) = txTotalBytes l + sum_list (map Tx (CmdStats stats))
   \<and> rxTotalBytes (work_batch l stats) = rxTotalBytes l + sum_list (map Rx (CmdStats stats))
   \<and> TotalCount (totalHistogram (work_batch l stats)) =
       TotalCount (totalHistogram l)
       + int (length (filter (\<lambda>c. in_range (totalHistogram l) (sint (Latency c)))
                             (CmdStats stats)))
   \<and> totalHistogram (snd (run_events vaq st es)) =
       record_where (\<lambda>c. True) (aggregated es) (totalHistogram (snd st))"
proof -
  have t: "totalHistogram (work_batch l stats) =
       record_where (\<lambda>c. True) (CmdStats stats) (totalHistogram l)"
    by (rule work_batch_record_where, rule work_cmdStat_total_step(1))
  have i: "inst_totalHistogram (work_batch l stats) =
       record_where (\<lambda>c. True) (CmdStats stats) (inst_totalHistogram l)"
    by (rule work_batch_record_where, rule work_cmdStat_total_step(2))
  have n: "TotalCount (totalHistogram (work_batch l stats)) =
       TotalCount (totalHistogram l)
       + int (length (filter (\<lambda>c. in_range (totalHistogram l) (sint (Latency c)))
                             (CmdStats stats)))"
    unfolding t by (simp add: TotalCount_record_where)
  have r: "totalHistogram (snd (run_events vaq st es)) =
       record_where (\<lambda>c. True) (aggregated es) (totalHistogram (snd st))"
    by (rule run_events_record_where, rule work_cmdStat_total_step(1),
        rule report_tick_cumulative_fields(7))
  from t i work_batch_bytes(1) [of l stats] work_batch_bytes(2) [of l stats] n r
  show ?thesis by (intro conjI)
qed

theorem work_totals_any_label_when_in_range_witness:
  "recorded (totalHistogram (work_batch loader example_stats)) = [250, 250, 250]
   \<and> TotalCount (totalHistogram (work_batch loader example_stats)) = 3
   \<and> TotalCount (inst_totalHistogram (work_batch loader example_stats)) = 3
   \<and> txTotalBytes (work_batch loader example_stats) = 40
   \<and> rxTotalBytes (work_batch loader example_stats) = 12"
  using work_totals_any_label_when_in_range [of loader example_stats]
  by (simp add: record_where_def in_range_def example_stats_def TotalCount_def
      example_cmdStat_def example_slow_cmdStat_def loader_def New_def)

subsection \<open>Ratios of the result document\<close>

text \<open>
  Claim C1. When the total operation count is zero, the four ratios that
  \<open>GetMeasuredRatiosMap\<close> puts into the result document should have been mapped from NaN
  to \<open>-1\<close> by \<open>wrapNaN\<close>. On the runner before any statistic is recorded the four
  entries are NaN as computed: \<open>wrapNaN\<close> would give \<open>-1\<close>, but it is not applied.
\<close>

theorem GetMeasuredRatiosMap_zero_ops_is_NaN:
  "TotalCount (totalHistogram loader) = 0
   \<and> GetMeasuredRatiosMap loader ''MeasuredWriteRatio'' = Some NaN
   \<and> GetMeasuredRatiosMap loader ''MeasuredReadRatio'' = Some NaN
   \<and> GetMeasuredRatiosMap loader ''MeasuredUpdateRatio'' = Some NaN
   \<and> GetMeasuredRatiosMap loader ''MeasuredDeleteRatio'' = Some NaN
   \<and> wrapNaN NaN = Fin (- 1)
   \<and> NaN \<noteq> Fin (- 1)"
  by (simp add: GetMeasuredRatiosMap_def Let_def loader_def New_def TotalCount_def
      float64_of_int_def wrapNaN_def IsNaN_def)

subsection \<open>The periodic reporter\<close>

text \<open>
  A tick modifies no cumulative histogram, so along any interleaving of aggregation steps
  and ticks the count of every cumulative histogram only grows. A tick empties the six
  per-category instantaneous histograms and leaves the instantaneous total as it is.
\<close>

lemma report_tick_cumulative: "cumulative (snd (report_tick vaq now st)) = cumulative (snd st)"
  by (cases st) (simp add: report_tick_def Let_def cumulative_def)

lemma TotalCount_RecordValue_discard_mono: "TotalCount h \<le> TotalCount (RecordValue_discard h v)"
  by (simp add: TotalCount_RecordValue_discard)

lemma work_cmdStat_cumulative_mono:
  "list_all2 (\<le>) (map TotalCount (cumulative l)) (map TotalCount (cumulative (work_cmdStat l c)))"
  by (simp add: work_cmdStat_def Let_def cumulative_def TotalCount_RecordValue_discard_mono)

lemma run_event_cumulative_mono:
  "list_all2 (\<le>) (map TotalCount (cumulative (snd st)))
                  (map TotalCount (cumulative (snd (run_event vaq st e))))"
proof (cases e)
  case (Aggregate c)
  then show ?thesis
    by (simp only: run_event_def run_event.case snd_conv work_cmdStat_cumulative_mono)
next
  case (Tick now)
  then show ?thesis
    by (simp only: run_event_def run_event.case report_tick_cumulative)
       (simp add: list_all2_same)
qed

lemma run_events_cumulative_mono:
  "list_all2 (\<le>) (map TotalCount (cumulative (snd st)))
                  (map TotalCount (cumulative (snd (run_events vaq st es))))"
proof (induction es arbitrary: st)
  case Nil
  show ?case by (simp add: run_events_def list_all2_same)
next
  case (Cons e es)
  have a: "list_all2 (\<le>) (map TotalCount (cumulative (snd st)))
                  (map TotalCount (cumulative (snd (run_event vaq st e))))"
    by (rule run_event_cumulative_mono)
  have b: "list_all2 (\<le>) (map TotalCount (cumulative (snd (run_event vaq st e))))
                  (map TotalCount (cumulative (snd (run_events vaq (run_event vaq st e) es))))"
    by (rule Cons.IH)
  have c: "run_events vaq st (e # es) = run_events vaq (run_event vaq st e) es"
    by (simp add: run_events_def)
  from a b have "list_all2 (\<lambda>x z. x \<le> z) (map TotalCount (cumulative (snd st)))
       (map TotalCount (cumulative (snd (run_events vaq (run_event vaq st e) es))))"
    by (rule list_all2_trans [rotated]) simp
  then show ?case unfolding c .
qed
lemma report_tick_resets_six:
  "map TotalCount (butlast (instantaneous (snd (report_tick vaq now st)))) = [0, 0, 0, 0, 0, 0]"
  by (cases st) (simp add: report_tick_def Let_def instantaneous_def Reset_def TotalCount_def)

lemma report_tick_inst_total:
  "inst_totalHistogram (snd (report_tick vaq now st)) = inst_totalHistogram (snd st)"
  by (cases st) (simp add: report_tick_def Let_def)

text \<open>
  Claim C2. After a reporting tick every instantaneous histogram, the total included,
  should have count zero. One \<open>WRITE\<close> statistic followed by one tick: the six
  per-category instantaneous histograms are empty, and the instantaneous total still
  holds the statistic. The cumulative histograms are as the worker left them.
\<close>

theorem report_tick_keeps_inst_total_count:
  "map TotalCount (instantaneous (snd (run_events example_vaq (report_init 0, loader)
      [Aggregate (example_cmdStat ''WRITE''), Tick 1000000000]))) = [0, 0, 0, 0, 0, 0, 1]
   \<and> map TotalCount (cumulative (snd (run_events example_vaq (report_init 0, loader)
      [Aggregate (example_cmdStat ''WRITE''), Tick 1000000000]))) = [0, 1, 0, 0, 0, 0, 1]"
  by (simp add: run_events_def run_event_def report_tick_def Let_def instantaneous_def
      cumulative_def Reset_def TotalCount_def work_cmdStat_def example_cmdStat_def loader_def
      New_def RecordValue_discard_def RecordValue_def report_init_def)

subsection \<open>Time series of the result document\<close>

lemma sorted_sort_ByTimestamp: "sorted (map Timestamp (sort_ByTimestamp ts))"
  by (simp add: sort_ByTimestamp_def)

lemma mset_sort_ByTimestamp: "mset (sort_ByTimestamp ts) = mset ts"
  by (simp add: sort_ByTimestamp_def)
text \<open>
  Claim C8. Each of the six per-category time series that \<open>GetTimeSeriesMap\<close> returns is
  in non-decreasing timestamp order, whatever data points the run appended and in
  whatever order; it holds the same data points as the runner's series.
\<close>

theorem GetTimeSeriesMap_sorted:
  "(\<exists>ts. fst (GetTimeSeriesMap b) ''setupWriteTs'' = Some ts
         \<and> sorted (map Timestamp ts) \<and> mset ts = mset (setupWriteTs b))
   \<and> (\<exists>ts. fst (GetTimeSeriesMap b) ''writeTs'' = Some ts
         \<and> sorted (map Timestamp ts) \<and> mset ts = mset (writeTs b))
   \<and> (\<exists>ts. fst (GetTimeSeriesMap b) ''readTs'' = Some ts
         \<and> sorted (map Timestamp ts) \<and> mset ts = mset (readTs b))
   \<and> (\<exists>ts. fst (GetTimeSeriesMap b) ''readCursorTs'' = Some ts
         \<and> sorted (map Timestamp ts) \<and> mset ts = mset (readCursorTs b))
   \<and> (\<exists>ts. fst (GetTimeSeriesMap b) ''updateTs'' = Some ts
         \<and> sorted (map Timestamp ts) \<and> mset ts = mset (updateTs b))
   \<and> (\<exists>ts. fst (GetTimeSeriesMap b) ''deleteTs'' = Some ts
         \<and> sorted (map Timestamp ts) \<and> mset ts = mset (deleteTs b))"
  by (simp add: GetTimeSeriesMap_def Let_def sorted_sort_ByTimestamp mset_sort_ByTimestamp)

theorem GetTimeSeriesMap_sorted_witness:
  "map Timestamp (writeTs example_jitter) = [3, 1, 2]
   \<and> map_option (map Timestamp) (fst (GetTimeSeriesMap example_jitter) ''writeTs'') = Some [1, 2, 3]"
proof -
  have m: "fst (GetTimeSeriesMap example_jitter) ''writeTs'' = Some (sort_ByTimestamp (writeTs example_jitter))"
    by (simp add: GetTimeSeriesMap_def Let_def)
  from GetTimeSeriesMap_sorted [of example_jitter]
  have "sorted (map Timestamp (sort_ByTimestamp (writeTs example_jitter)))"
    unfolding m by simp
  moreover have "map Timestamp (sort_ByTimestamp (writeTs example_jitter)) = [1, 2, 3]"
    by (simp add: example_jitter_def sort_ByTimestamp_def)
  moreover have "map Timestamp (writeTs example_jitter) = [3, 1, 2]"
    by (simp add: example_jitter_def)
  ultimately show ?thesis using m by simp
qed

subsection \<open>The command processor\<close>

text \<open>
  The flush emits one statistic per enqueue time, each holding a single entry whose
  latency is measured from that enqueue time to the one clock reading taken after the
  round trip. The two buffers grow and are emptied together, so they have the same
  length whenever the flush is tried.
\<close>

lemma length_emit_stats:
  "length (emit_stats endT ct q tx rcv ts rx) = length ts"
  by (induction ts arbitrary: rx) (simp_all add: Let_def)

lemma nth_emit_stats:
  "i < length ts \<Longrightarrow>
   CmdStats (emit_stats endT ct q tx rcv ts rx ! i) =
     [\<lparr>Label = ct, CmdQueryId = q,
       Latency = word_of_int (Microseconds (Sub endT (ts ! i))),
       IsUpdate = False, IsDelete = False, Tx = tx,
       Rx = rx + of_nat (Suc i) * getRxLen rcv\<rparr>]"
proof (induction ts arbitrary: rx i)
  case Nil
  then show ?case by simp
next
  case (Cons t ts)
  show ?case
  proof (cases i)
    case 0
    then show ?thesis by (simp add: Let_def AddEntry_def NewStat_def)
  next
    case (Suc j)
    with Cons.prems have "j < length ts" by simp
    from Cons.IH [OF this, of "rx + getRxLen rcv"] Suc show ?thesis
      by (simp add: Let_def algebra_simps)
  qed
qed

lemma sendIfRequired_lengths:
  "length times' = length cmds \<Longrightarrow>
   sendIfRequired e opts p cmdType cmdQueryId cmds err times' rx rcv tx w = Inr ((cmds', times''), p', w')
   \<Longrightarrow> length times'' = length cmds'"
  by (auto simp: sendIfRequired_def Do_Pipeline_def Now_def Let_def
      split: if_splits option.splits sum.splits prod.splits)

lemma sendFlatCmd_lengths:
  "length times' = length cmds \<Longrightarrow>
   sendFlatCmd e opts p cmdType cmdQueryId cmd docfields tx n cmds times' w = Inr ((cmds', times''), p', w')
   \<Longrightarrow> length times'' = length cmds'"
  by (cases docfields)
     (auto simp: sendFlatCmd_def Now_def Let_def dest: sendIfRequired_lengths [rotated])


text \<open>
  Claim C3. While fewer than \<open>pipeline\<close> commands are pending, the flush step issues no
  round trip and leaves the buffers as they are. With at least \<open>pipeline\<close> commands
  pending, all of them go out in one pipelined round trip, one statistic is emitted per
  pending command, with latency the completion time of the flush minus the enqueue time
  of that command in microseconds, and both buffers are empty afterwards. The round trip
  is taken to succeed or \<open>continueOnErr\<close> to be set; the other case is the fatal one.
\<close>

theorem sendIfRequired_flush:
  assumes len: "length times' = length cmds"
      and client: "vanillaClient p = Some c"
      and ok: "do_reply e (length (roundTrips w)) cmds = None \<or> continueOnErr opts"
  shows "(int (length cmds) < pipeline opts \<longrightarrow>
            sendIfRequired e opts p cmdType cmdQueryId cmds err times' rx rcv tx w
              = Inr ((cmds, times'), p, w))
       \<and> (pipeline opts \<le> int (length cmds) \<longrightarrow>
            (\<exists>stats w'.
               sendIfRequired e opts p cmdType cmdQueryId cmds err times' rx rcv tx w
                 = Inr (([], []), p\<lparr>cmdChan := cmdChan p @ stats\<rparr>, w')
               \<and> roundTrips w' = roundTrips w @ [cmds]
               \<and> length stats = length cmds
               \<and> (\<forall>i < length cmds. \<exists>cs. CmdStats (stats ! i) = [cs]
                     \<and> Latency cs = word_of_int
                          (Microseconds (Sub (now_at e (clockReads w)) (times' ! i))))))"
proof (intro conjI impI)
  assume "int (length cmds) < pipeline opts"
  then show "sendIfRequired e opts p cmdType cmdQueryId cmds err times' rx rcv tx w
              = Inr ((cmds, times'), p, w)"
    by (simp add: sendIfRequired_def)
next
  assume full: "pipeline opts \<le> int (length cmds)"
  let ?endT = "now_at e (clockReads w)"
  let ?stats = "emit_stats ?endT cmdType cmdQueryId tx rcv times' rx"
  have "\<exists>w'. sendIfRequired e opts p cmdType cmdQueryId cmds err times' rx rcv tx w
          = Inr (([], []), p\<lparr>cmdChan := cmdChan p @ ?stats\<rparr>, w')
        \<and> roundTrips w' = roundTrips w @ [cmds]"
  proof (cases "do_reply e (length (roundTrips w)) cmds")
    case None
    then show ?thesis
      using full client by (simp add: sendIfRequired_def Do_Pipeline_def Now_def Let_def)
  next
    case (Some msg)
    with ok have "continueOnErr opts" by simp
    then show ?thesis
      using full client Some by (simp add: sendIfRequired_def Do_Pipeline_def Now_def Let_def)
  qed
  then obtain w' where
    r: "sendIfRequired e opts p cmdType cmdQueryId cmds err times' rx rcv tx w
          = Inr (([], []), p\<lparr>cmdChan := cmdChan p @ ?stats\<rparr>, w')"
    and rt: "roundTrips w' = roundTrips w @ [cmds]"
    by blast
  have l: "length ?stats = length cmds"
    using len by (simp add: length_emit_stats)
  have n: "\<forall>i < length cmds. \<exists>cs. CmdStats (?stats ! i) = [cs]
             \<and> Latency cs = word_of_int (Microseconds (Sub ?endT (times' ! i)))"
    using len by (simp add: nth_emit_stats)
  from r rt l n show "\<exists>stats w'.
       sendIfRequired e opts p cmdType cmdQueryId cmds err times' rx rcv tx w
         = Inr (([], []), p\<lparr>cmdChan := cmdChan p @ stats\<rparr>, w')
       \<and> roundTrips w' = roundTrips w @ [cmds]
       \<and> length stats = length cmds
       \<and> (\<forall>i < length cmds. \<exists>cs. CmdStats (stats ! i) = [cs]
             \<and> Latency cs = word_of_int
                  (Microseconds (Sub (now_at e (clockReads w)) (times' ! i))))"
    by blast
qed

theorem sendIfRequired_flush_witness:
  "sendIfRequired (example_env False) (example_options False 0) example_processor ''WRITE'' ''q1''
      (take 1 example_cmds) None [1000000] 0 NoReply 20 (example_world\<lparr>clockReads := 2\<rparr>)
    = Inr ((take 1 example_cmds, [1000000]), example_processor, example_world\<lparr>clockReads := 2\<rparr>)
   \<and> sendIfRequired (example_env False) (example_options False 0) example_processor ''WRITE'' ''q2''
      example_cmds None [0, 1000000] 0 NoReply 20 (example_world\<lparr>clockReads := 2\<rparr>)
    = Inr (([], []),
        example_processor\<lparr>cmdChan :=
          [AddEntry NewStat ''WRITE'' ''q2'' 2000 False False 20 0,
           AddEntry NewStat ''WRITE'' ''q2'' 1000 False False 20 0]\<rparr>,
        \<lparr>clockReads = 3, roundTrips = [example_cmds], logged = []\<rparr>)"
proof -
  have a: "sendIfRequired (example_env False) (example_options False 0) example_processor ''WRITE'' ''q1''
      (take 1 example_cmds) None [1000000] 0 NoReply 20 (example_world\<lparr>clockReads := 2\<rparr>)
    = Inr ((take 1 example_cmds, [1000000]), example_processor, example_world\<lparr>clockReads := 2\<rparr>)"
    using sendIfRequired_flush [of "[1000000]" "take 1 example_cmds" example_processor
        "''localhost:6379''" "example_env False" "example_world\<lparr>clockReads := 2\<rparr>"
        "example_options False 0" "''WRITE''" "''q1''" None 0 NoReply 20]
    by (simp add: example_cmds_def example_processor_def example_env_def example_options_def
        example_world_def)
  have b: "sendIfRequired (example_env False) (example_options False 0) example_processor ''WRITE'' ''q2''
      example_cmds None [0, 1000000] 0 NoReply 20 (example_world\<lparr>clockReads := 2\<rparr>)
    = Inr (([], []),
        example_processor\<lparr>cmdChan :=
          [AddEntry NewStat ''WRITE'' ''q2'' 2000 False False 20 0,
           AddEntry NewStat ''WRITE'' ''q2'' 1000 False False 20 0]\<rparr>,
        \<lparr>clockReads = 3, roundTrips = [example_cmds], logged = []\<rparr>)"
    using sendIfRequired_flush [of "[0, 1000000]" example_cmds example_processor
        "''localhost:6379''" "example_env False" "example_world\<lparr>clockReads := 2\<rparr>"
        "example_options False 0" "''WRITE''" "''q2''" None 0 NoReply 20]
    by (simp add: sendIfRequired_def Do_Pipeline_def Now_def Let_def example_cmds_def
        example_processor_def example_env_def example_options_def example_world_def
        Sub_def Microseconds_def getRxLen_def)
  from a b show ?thesis by (intro conjI)
qed

text \<open>
  With \<open>continueOnErr\<close> no flush is fatal, so the rows that follow a failed round trip,
  and the batches that follow, are processed.
\<close>

lemma sendIfRequired_no_fatal:
  "continueOnErr opts \<Longrightarrow>
   sendIfRequired e opts p cmdType cmdQueryId cmds err times' rx rcv tx w \<noteq> Inl (Fatal msg)"
  by (auto simp: sendIfRequired_def Do_Pipeline_def Now_def Let_def
      split: if_splits option.splits sum.splits prod.splits)

lemma sendFlatCmd_no_fatal:
  "continueOnErr opts \<Longrightarrow>
   sendFlatCmd e opts p cmdType cmdQueryId cmd docfields tx n cmds times' w \<noteq> Inl (Fatal msg)"
  by (cases docfields) (simp_all add: sendFlatCmd_def Now_def Let_def sendIfRequired_no_fatal)

lemma connectionProcessor_rows_no_fatal:
  "continueOnErr opts \<Longrightarrow> connectionProcessor_rows e opts rs slot0 p w \<noteq> Inl (Fatal msg)"
proof (induction rs arbitrary: slot0 p w)
  case Nil
  show ?case by simp
next
  case (Cons row rs)
  show ?case
    using Cons.IH [OF Cons.prems] sendFlatCmd_no_fatal [OF Cons.prems]
    by (auto split: sum.splits prod.splits option.splits)
qed

lemma ProcessBatch_no_fatal:
  "continueOnErr opts \<Longrightarrow> ProcessBatch e opts p events doLoad ePool w \<noteq> Inl (Fatal msg)"
  using connectionProcessor_rows_no_fatal [of opts e "rows events" _ "p\<lparr>cmdChan := []\<rparr>" w msg]
  by (auto simp: ProcessBatch_def connectionProcessor_def Let_def split: sum.splits prod.splits)

text \<open>
  Claim C4, as stated: a failed round trip under \<open>continueOnErr\<close> is logged. With
  \<open>continueOnErr\<close> set and \<open>debug = 0\<close>, a round trip that returns an error leaves the
  log empty: the statistics are emitted and the buffers emptied as after a success.
\<close>

theorem sendIfRequired_error_not_logged_counterexample:
  "do_reply (example_env True) 0 example_cmds = Some ''connection reset''
   \<and> continueOnErr (example_options True 0)
   \<and> sendIfRequired (example_env True) (example_options True 0) example_processor ''WRITE'' ''q2''
        example_cmds None [0, 1000000] 0 NoReply 20 (example_world\<lparr>clockReads := 2\<rparr>)
      = Inr (([], []),
          example_processor\<lparr>cmdChan :=
            [AddEntry NewStat ''WRITE'' ''q2'' 2000 False False 20 0,
             AddEntry NewStat ''WRITE'' ''q2'' 1000 False False 20 0]\<rparr>,
          \<lparr>clockReads = 3, roundTrips = [example_cmds], logged = []\<rparr>)"
  by (simp add: sendIfRequired_def Do_Pipeline_def Now_def Let_def example_cmds_def
      example_processor_def example_env_def example_options_def example_world_def
      Sub_def Microseconds_def getRxLen_def)

text \<open>
  Claim C4, amended. When a flush round trip returns an error: with \<open>continueOnErr\<close> set
  the step completes, and the error is written to the log exactly when \<open>debug > 0\<close>;
  without \<open>continueOnErr\<close> the process ends with a fatal error.
\<close>

theorem sendIfRequired_error_policy:
  assumes full: "pipeline opts \<le> int (length cmds)"
      and client: "vanillaClient p = Some c"
      and failed: "do_reply e (length (roundTrips w)) cmds = Some msg"
  shows "(continueOnErr opts \<longrightarrow>
            (\<exists>p' w'. sendIfRequired e opts p cmdType cmdQueryId cmds err times' rx rcv tx w
                        = Inr (([], []), p', w')
                    \<and> logged w' = logged w @ (if 0 < debug opts then [ReceivedError cmds msg] else [])))
       \<and> (\<not> continueOnErr opts \<longrightarrow>
            sendIfRequired e opts p cmdType cmdQueryId cmds err times' rx rcv tx w
              = Inl (Fatal msg))"
  using assms by (simp add: sendIfRequired_def Do_Pipeline_def Now_def Let_def)

theorem sendIfRequired_error_policy_witness:
  "sendIfRequired (example_env True) (example_options True 1) example_processor ''WRITE'' ''q2''
        example_cmds None [0, 1000000] 0 NoReply 20 (example_world\<lparr>clockReads := 2\<rparr>)
      = Inr (([], []),
          example_processor\<lparr>cmdChan :=
            [AddEntry NewStat ''WRITE'' ''q2'' 2000 False False 20 0,
             AddEntry NewStat ''WRITE'' ''q2'' 1000 False False 20 0]\<rparr>,
          \<lparr>clockReads = 3, roundTrips = [example_cmds],
            logged = [ReceivedError example_cmds ''connection reset'']\<rparr>)
   \<and> sendIfRequired (example_env True) (example_options False 1) example_processor ''WRITE'' ''q2''
        example_cmds None [0, 1000000] 0 NoReply 20 (example_world\<lparr>clockReads := 2\<rparr>)
      = Inl (Fatal ''connection reset'')"
proof -
  have a: "sendIfRequired (example_env True) (example_options True 1) example_processor ''WRITE'' ''q2''
        example_cmds None [0, 1000000] 0 NoReply 20 (example_world\<lparr>clockReads := 2\<rparr>)
      = Inr (([], []),
          example_processor\<lparr>cmdChan :=
            [AddEntry NewStat ''WRITE'' ''q2'' 2000 False False 20 0,
             AddEntry NewStat ''WRITE'' ''q2'' 1000 False False 20 0]\<rparr>,
          \<lparr>clockReads = 3, roundTrips = [example_cmds],
            logged = [ReceivedError example_cmds ''connection reset'']\<rparr>)"
    using sendIfRequired_error_policy [of "example_options True 1" example_cmds example_processor
        "''localhost:6379''" "example_env True" "example_world\<lparr>clockReads := 2\<rparr>"
        "''connection reset''" "''WRITE''" "''q2''" None "[0, 1000000]" 0 NoReply 20]
    by (simp add: sendIfRequired_def Do_Pipeline_def Now_def Let_def example_cmds_def
        example_processor_def example_env_def example_options_def example_world_def
        Sub_def Microseconds_def getRxLen_def)
  have b: "sendIfRequired (example_env True) (example_options False 1) example_processor ''WRITE'' ''q2''
        example_cmds None [0, 1000000] 0 NoReply 20 (example_world\<lparr>clockReads := 2\<rparr>)
      = Inl (Fatal ''connection reset'')"
    using sendIfRequired_error_policy [of "example_options False 1" example_cmds example_processor
        "''localhost:6379''" "example_env True" "example_world\<lparr>clockReads := 2\<rparr>"
        "''connection reset''" "''WRITE''" "''q2''" None "[0, 1000000]" 0 NoReply 20]
    by (simp add: example_cmds_def example_processor_def example_env_def example_options_def
        example_world_def)
  from a b show ?thesis by (intro conjI)
qed

text \<open>
  Claim C7. With \<open>doLoad = false\<close> a batch is drained without any effect outside: the
  result holds no statistics, no command is sent and the clock is not read, the rows of
  the batch are cut to the empty sequence and the batch is handed to the pool.
\<close>

theorem ProcessBatch_dry_run:
  "ProcessBatch e opts p events False ePool w
     = Inr (NewStat, events\<lparr>rows := []\<rparr>, ePool @ [events\<lparr>rows := []\<rparr>], p, w)
   \<and> CmdStats NewStat = []"
  by (simp add: ProcessBatch_def Let_def NewStat_def)

theorem ProcessBatch_dry_run_witness:
  "ProcessBatch (example_env False) (example_options False 0) example_processor example_batch
      False [] example_world
     = Inr (\<lparr>CmdStats = []\<rparr>, \<lparr>rows = []\<rparr>, [\<lparr>rows = []\<rparr>], example_processor, example_world)"
  using ProcessBatch_dry_run [of "example_env False" "example_options False 0" example_processor
      example_batch "[]" example_world]
  by (simp add: NewStat_def example_batch_def)

text \<open>For comparison, the same batch with \<open>doLoad = true\<close> and a pipeline of two.\<close>

lemma ProcessBatch_example_load:
  "ProcessBatch (example_env False) (example_options False 0) example_processor example_batch
      True [] example_world
     = Inr (\<lparr>CmdStats =
              [\<lparr>Label = ''WRITE'', CmdQueryId = ''q2'', Latency = 2000, IsUpdate = False,
                IsDelete = False, Tx = 19, Rx = 0\<rparr>,
               \<lparr>Label = ''WRITE'', CmdQueryId = ''q2'', Latency = 1000, IsUpdate = False,
                IsDelete = False, Tx = 19, Rx = 0\<rparr>]\<rparr>,
            \<lparr>rows = []\<rparr>, [\<lparr>rows = []\<rparr>], example_processor,
            \<lparr>clockReads = 4,
              roundTrips = [example_cmds],
              logged = []\<rparr>)"
  by (simp add: ProcessBatch_def connectionProcessor_def preProcessCmd_def sendFlatCmd_def
      sendIfRequired_def Do_Pipeline_def Now_def Let_def example_cmds_def example_batch_def
      example_processor_def example_env_def example_options_def example_world_def
      Sub_def Microseconds_def getRxLen_def NewStat_def AddEntry_def Merge_def)

subsection \<open>Duplex channels\<close>

text \<open>
  No operation changes the capacity of a channel, and none takes the number of
  outstanding batches above it; this carries over to the channels of the system and to
  whole executions.
\<close>

lemma chan_step_bounded:
  "chan_step c ev = Some c' \<Longrightarrow> queueLen c = n \<Longrightarrow> outstanding c \<le> n
   \<Longrightarrow> queueLen c' = n \<and> outstanding c' \<le> n"
  by (cases ev)
     (auto simp: chan_step_def sendToWorker_def receive_def sendToScanner_def close_def
        outstanding_def split: if_splits list.splits)

lemma system_step_bounded:
  assumes "system_step cs iev = Some cs'"
      and "\<forall>c \<in> set cs. queueLen c = n \<and> outstanding c \<le> n"
  shows "\<forall>c \<in> set cs'. queueLen c = n \<and> outstanding c \<le> n"
proof -
  obtain i ev where iev: "iev = (i, ev)" by (cases iev)
  from assms(1) iev obtain c' where i: "i < length cs"
    and st: "chan_step (cs ! i) ev = Some c'" and cs': "cs' = cs[i := c']"
    by (auto simp: system_step_def split: if_splits option.splits)
  from i assms(2) have "queueLen (cs ! i) = n" "outstanding (cs ! i) \<le> n"
    by simp_all
  with st have c': "queueLen c' = n \<and> outstanding c' \<le> n"
    by (rule chan_step_bounded)
  show ?thesis
  proof
    fix c assume "c \<in> set cs'"
    then have "c \<in> insert c' (set cs)"
      unfolding cs' using set_update_subset_insert by fast
    with c' assms(2) show "queueLen c = n \<and> outstanding c \<le> n" by auto
  qed
qed

lemma system_run_bounded:
  "system_run cs ievs = Some cs' \<Longrightarrow> \<forall>c \<in> set cs. queueLen c = n \<and> outstanding c \<le> n
   \<Longrightarrow> \<forall>c \<in> set cs'. queueLen c = n \<and> outstanding c \<le> n"
proof (induction ievs arbitrary: cs)
  case Nil
  then show ?case by simp
next
  case (Cons iev ievs)
  from Cons.prems(1) obtain cs1 where s: "system_step cs iev = Some cs1"
    and r: "system_run cs1 ievs = Some cs'"
    by (auto split: option.splits)
  from s Cons.prems(2) have "\<forall>c \<in> set cs1. queueLen c = n \<and> outstanding c \<le> n"
    by (rule system_step_bounded)
  with r show ?case by (rule Cons.IH)
qed

lemma createChannels_fresh:
  "createChannels workers workQueues = Inr cs \<Longrightarrow>
   \<exists>n. \<forall>c \<in> set cs. queueLen c = n \<and> outstanding c \<le> n"
  by (auto simp: createChannels_def Let_def newDuplexChannel_def outstanding_def split: if_splits)

text \<open>
  Claim C9. In every state that the scanner and the workers can reach from the channels
  made by \<open>createChannels\<close>, no channel has more outstanding batches than its capacity.
  On a channel that is full the scanner's send cannot proceed; once a worker has
  acknowledged a batch, it can.
\<close>

theorem backpressure_bound:
  assumes "createChannels workers workQueues = Inr cs"
      and "system_run cs ievs = Some cs'"
  shows "\<forall>c \<in> set cs'. outstanding c \<le> queueLen c
           \<and> (outstanding c = queueLen c \<longrightarrow> sendToWorker b c = None)
           \<and> (outstanding c = queueLen c \<longrightarrow> \<not> closed c \<longrightarrow> 0 < unacked c \<longrightarrow>
                (\<exists>c1 c2. sendToScanner c = Some c1 \<and> sendToWorker b c1 = Some c2))"
proof
  fix c assume c: "c \<in> set cs'"
  from createChannels_fresh [OF assms(1)] obtain n where
    "\<forall>c \<in> set cs. queueLen c = n \<and> outstanding c \<le> n" ..
  with assms(2) have "\<forall>c \<in> set cs'. queueLen c = n \<and> outstanding c \<le> n"
    by (rule system_run_bounded)
  with c have le: "outstanding c \<le> queueLen c" by simp
  have blocks: "outstanding c = queueLen c \<longrightarrow> sendToWorker b c = None"
    by (simp add: sendToWorker_def)
  have frees: "outstanding c = queueLen c \<longrightarrow> \<not> closed c \<longrightarrow> 0 < unacked c \<longrightarrow>
                (\<exists>c1 c2. sendToScanner c = Some c1 \<and> sendToWorker b c1 = Some c2)"
    by (auto simp: sendToScanner_def sendToWorker_def outstanding_def)
  from le blocks frees show "outstanding c \<le> queueLen c
           \<and> (outstanding c = queueLen c \<longrightarrow> sendToWorker b c = None)
           \<and> (outstanding c = queueLen c \<longrightarrow> \<not> closed c \<longrightarrow> 0 < unacked c \<longrightarrow>
                (\<exists>c1 c2. sendToScanner c = Some c1 \<and> sendToWorker b c1 = Some c2))"
    by (intro conjI)
qed

theorem backpressure_bound_witness:
  "system_run [newDuplexChannel 2, newDuplexChannel 2] [(0, Send 1), (0, Send 2), (0, Receive)]
     = Some [example_full_channel, newDuplexChannel 2]
   \<and> outstanding example_full_channel = queueLen example_full_channel
   \<and> sendToWorker 3 example_full_channel = None
   \<and> (\<exists>c1 c2. sendToScanner example_full_channel = Some c1 \<and> sendToWorker 3 c1 = Some c2)"
proof -
  have r: "replicate (2::nat) c = [c, c]" for c :: "nat duplexChannel"
    by (simp add: numeral_2_eq_2)
  have h1: "createChannels 4 2 = Inr [newDuplexChannel 2, newDuplexChannel 2 :: nat duplexChannel]"
    by (simp add: createChannels_def WorkerPerQueue_def Let_def r)
  have h2: "system_run [newDuplexChannel 2, newDuplexChannel 2]
              [(0, Send 1), (0, Send 2), (0, Receive)]
            = Some [example_full_channel, newDuplexChannel 2]"
    by (simp add: system_step_def chan_step_def sendToWorker_def receive_def outstanding_def
        newDuplexChannel_def example_full_channel_def)
  have m: "example_full_channel \<in> set [example_full_channel, newDuplexChannel 2]"
    by simp
  have full: "outstanding example_full_channel = queueLen example_full_channel"
    by (simp add: outstanding_def example_full_channel_def)
  have op: "\<not> closed example_full_channel" and un: "0 < unacked example_full_channel"
    by (simp_all add: example_full_channel_def)
  note t = backpressure_bound [OF h1 h2, of 3, THEN bspec, OF m]
  from t full have "sendToWorker 3 example_full_channel = None"
    by blast
  moreover from t full op un
  have "\<exists>c1 c2. sendToScanner example_full_channel = Some c1 \<and> sendToWorker 3 c1 = Some c2"
    by blast
  ultimately show ?thesis using h2 full by (intro conjI)
qed

end
